theory Spec2Isabelle
  imports Complex_Main "HOL-Library.While_Combinator" "HOL-Library.Sublist"
begin

section \<open>Data model\<close>

text \<open>
  The planner (\<^verbatim>\<open>src/utils/*.ts\<close> and the orchestration in \<^verbatim>\<open>App.tsx\<close>) works on
  GeoJSON values and calls the turf.js geometry library for every geometric primitive.

  \<^item> A JavaScript number is modelled as a rational: the rounding of IEEE doubles is not
    modelled. \<^verbatim>\<open>Infinity\<close> and \<^verbatim>\<open>NaN\<close> appear as explicit values exactly where the source
    creates them (\<^verbatim>\<open>minArea = Infinity\<close>, the Dijkstra distances, the coverage ratio
    \<^verbatim>\<open>0 / 0\<close>).
  \<^item> A GeoJSON \<^verbatim>\<open>Position\<close> is a pair (longitude, latitude); the coordinates of a
    \<^verbatim>\<open>LineString\<close> are a list of positions, those of a \<^verbatim>\<open>Polygon\<close> a list of rings.
    A \<^verbatim>\<open>Feature\<close> is represented by the coordinates of its geometry, together with its
    properties where the code reads them (the coverage cells).
  \<^item> \<^verbatim>\<open>null\<close> is \<open>None\<close>; a thrown exception is \<open>Inl\<close> of an \<open>error\<close>.

  Modelled are the boundary conditioner, the minimum bounding box, the coverage grid, the
  junction detection of the roadmap builder, the clear-path router with its graph search,
  the sweep driver, the pruning and the orchestration loop. The Voronoi construction and
  the joining of its segments, the path markers and the file adapters are not.
\<close>

type_synonym position = "rat \<times> rat"
type_synonym linestring = "position list"
type_synonym ring = "position list"
type_synonym polygon = "ring list"
type_synonym bbox = "rat \<times> rat \<times> rat \<times> rat"

datatype error =
    DegenerateHull  \<comment> \<open>\<^verbatim>\<open>Error('Unable to calculate minimum bounding box')\<close>\<close>
  | TurfError       \<comment> \<open>an \<^verbatim>\<open>Error\<close> thrown by the validation of a turf constructor\<close>
  | TypeError       \<comment> \<open>a property read or a call on \<^verbatim>\<open>undefined\<close> or \<^verbatim>\<open>null\<close>\<close>

datatype units = Meters | Kilometers

text \<open>
  The three places where the source computes with \<^verbatim>\<open>Infinity\<close> or can produce \<^verbatim>\<open>NaN\<close> use
  \<open>jsnum\<close>; \<open>js_lt\<close> is the JavaScript comparison \<^verbatim>\<open><\<close>, false whenever an operand is
  \<^verbatim>\<open>NaN\<close>.
\<close>

datatype jsnum = Num rat | PosInf | NaN

fun js_lt :: "jsnum \<Rightarrow> jsnum \<Rightarrow> bool" where
  "js_lt (Num a) (Num b) = (a < b)"
| "js_lt (Num a) PosInf = True"
| "js_lt _ _ = False"

datatype geom =
    LineStringG linestring
  | MultiPolygonG "polygon list"

text \<open>
  \<^verbatim>\<open>Visit = { unvisited: 0, visited: 0.5, unvisitable: 1 }\<close> (\<^verbatim>\<open>globals.ts\<close>).
\<close>

datatype visit = Unvisited | Visited | Unvisitable

record cell =
  geometry :: polygon
  gridRow :: int
  gridCol :: int
  visited :: visit
  centroid :: position

text \<open>
  The turf.js primitives the planner calls. They are not part of the repository, so the
  model takes them as a parameter: every theorem below holds for every choice of these
  functions. Distances are in the unit the call site passes.
\<close>

record turf =
  t_distance :: "position \<Rightarrow> position \<Rightarrow> rat"
  t_lineSplit :: "linestring \<Rightarrow> geom \<Rightarrow> linestring list"
  t_convex :: "polygon \<Rightarrow> polygon option"
  t_centroid :: "polygon \<Rightarrow> position"
  t_bearing :: "position \<Rightarrow> position \<Rightarrow> rat"
  t_transformRotate :: "polygon \<Rightarrow> rat \<Rightarrow> position \<Rightarrow> polygon"
  t_bbox :: "polygon \<Rightarrow> bbox"
  t_bboxPolygon :: "bbox \<Rightarrow> polygon"
  t_area :: "polygon \<Rightarrow> rat"
  t_booleanWithin :: "polygon \<Rightarrow> polygon \<Rightarrow> bool"
  t_difference :: "polygon list \<Rightarrow> polygon option"
  t_buffer :: "polygon \<Rightarrow> rat \<Rightarrow> polygon option"
  t_squareGrid :: "bbox \<Rightarrow> rat \<Rightarrow> polygon list"
  t_booleanContains :: "polygon \<Rightarrow> position \<Rightarrow> bool"
  t_nearestPointOnLine :: "linestring \<Rightarrow> position \<Rightarrow> position"
  t_length :: "linestring \<Rightarrow> units \<Rightarrow> rat"
  t_destination :: "position \<Rightarrow> rat \<Rightarrow> rat \<Rightarrow> position"

text \<open>
  The constructors of \<^verbatim>\<open>@turf/helpers\<close> validate their argument:
  \<^verbatim>\<open>lineString\<close> throws "coordinates must be an array of two or more positions" on fewer
  than two positions; \<^verbatim>\<open>polygon\<close> throws when a ring has fewer than four positions or
  its first and last positions differ.
\<close>

definition lineString :: "position list \<Rightarrow> error + linestring" where
  "lineString cs = (if length cs < 2 then Inl TurfError else Inr cs)"

definition ring_ok :: "ring \<Rightarrow> bool" where
  "ring_ok r = (4 \<le> length r \<and> hd r = last r)"

definition polygon_ctor :: "ring list \<Rightarrow> error + polygon" where
  "polygon_ctor rs = (if list_all ring_ok rs then Inr rs else Inl TurfError)"

section \<open>Path post-processing (\<^verbatim>\<open>mow-path.ts\<close>, \<^verbatim>\<open>pruneExcessPoints\<close>)\<close>

text \<open>
  The callback of \<^verbatim>\<open>coordinates.reduce\<close>: the first vertex is kept; a later vertex is kept
  when its distance from the last kept vertex exceeds \<^verbatim>\<open>pruneDistance\<close>.
\<close>

definition pruneStep :: "turf \<Rightarrow> rat \<Rightarrow> position list \<Rightarrow> position \<Rightarrow> position list" where
  "pruneStep T pruneDistance acc cur =
     (if length acc = 0 then acc @ [cur]
      else if pruneDistance < t_distance T (last acc) cur then acc @ [cur]
      else acc)"

definition prunedCoordinates :: "turf \<Rightarrow> rat \<Rightarrow> position list \<Rightarrow> position list" where
  "prunedCoordinates T pruneDistance cs = foldl (pruneStep T pruneDistance) [] cs"

definition pruneExcessPoints :: "turf \<Rightarrow> linestring option \<Rightarrow> rat \<Rightarrow> error + linestring option" where
  "pruneExcessPoints T path pruneDistance =
     (case path of
        None \<Rightarrow> Inr None
      | Some p \<Rightarrow>
          (case lineString (prunedCoordinates T pruneDistance p) of
             Inl e \<Rightarrow> Inl e
           | Inr l \<Rightarrow> Inr (Some l)))"

section \<open>Point fingerprints and junction detection (\<^verbatim>\<open>voronoi-roadmap.ts\<close>)\<close>

text \<open>
  \<^verbatim>\<open>value.toFixed(FIXED_PRECISION)\<close> with \<^verbatim>\<open>FIXED_PRECISION = 6\<close> prints a minus sign when
  the number is negative, then the decimal digits of the integer \<open>n\<close> for which
  \<open>n / 10\<^sup>6\<close> is nearest to the absolute value (the larger \<open>n\<close> on a tie). The string
  is determined by, and determines, the pair (sign, \<open>n\<close>), which stands for it here; the
  key \<^verbatim>\<open>JSON.stringify(p.map((value) => value.toFixed(6)))\<close> of a position is the pair of
  the two.
\<close>

type_synonym fixed = "bool \<times> int"
type_synonym key = "fixed \<times> fixed"

definition toFixed6 :: "rat \<Rightarrow> fixed" where
  "toFixed6 x = (x < 0, \<lfloor>\<bar>x\<bar> * 1000000 + 1 / 2\<rfloor>)"

definition pointKey :: "position \<Rightarrow> key" where
  "pointKey p = (toFixed6 (fst p), toFixed6 (snd p))"

text \<open>
  \<^verbatim>\<open>identifyBranchPoints\<close>. \<^verbatim>\<open>pointMap[k] = (pointMap[k] || 0) + 1\<close>, then the key joins
  \<^verbatim>\<open>branchPointKeys\<close> when its count exceeds 2. The destructuring
  \<^verbatim>\<open>const [start, end] = segment.geometry.coordinates\<close> reads the first two positions; on a
  segment with fewer, \<^verbatim>\<open>start.map\<close> or \<^verbatim>\<open>end.map\<close> is a call on \<^verbatim>\<open>undefined\<close>, before
  any count of that segment is written.
\<close>

type_synonym pointMap = "key \<rightharpoonup> nat"

definition countEndpoint :: "pointMap \<times> key set \<Rightarrow> key \<Rightarrow> pointMap \<times> key set" where
  "countEndpoint st k =
     (let n = (case fst st k of None \<Rightarrow> 0 | Some c \<Rightarrow> c) + 1
      in ((fst st)(k \<mapsto> n), if 2 < n then insert k (snd st) else snd st))"

fun branchPointsLoop :: "pointMap \<times> key set \<Rightarrow> linestring list \<Rightarrow> error + pointMap \<times> key set" where
  "branchPointsLoop st [] = Inr st"
| "branchPointsLoop st (segment # segments) =
     (case segment of
        start # end # _ \<Rightarrow>
          branchPointsLoop (countEndpoint (countEndpoint st (pointKey start)) (pointKey end)) segments
      | _ \<Rightarrow> Inl TypeError)"

definition identifyBranchPoints :: "linestring list \<Rightarrow> error + key set" where
  "identifyBranchPoints segments =
     (case branchPointsLoop (Map.empty, {}) segments of
        Inl e \<Rightarrow> Inl e
      | Inr st \<Rightarrow> Inr (snd st))"

text \<open>
  The count the specification speaks of: the endpoint keys of all segments, both
  endpoints of every segment, in order.
\<close>

definition endpointKeys :: "linestring list \<Rightarrow> key list" where
  "endpointKeys segments = concat (map (\<lambda>s. [pointKey (s ! 0), pointKey (s ! 1)]) segments)"

section \<open>Boundary conditioner (\<^verbatim>\<open>boundaries.ts\<close> and the head of \<^verbatim>\<open>generateAll\<close>)\<close>






section \<open>Minimum bounding box (\<^verbatim>\<open>boundaries.ts\<close>, \<^verbatim>\<open>getMinBoundingBox\<close>)\<close>

definition getConvexHull :: "turf \<Rightarrow> polygon \<Rightarrow> polygon option" where
  "getConvexHull T boundary = t_convex T boundary"

text \<open>
  The state of the rotating-calipers loop is \<^verbatim>\<open>(minArea, bestBoundingBox, angle)\<close>, initially
  \<^verbatim>\<open>(Infinity, null, 0)\<close>; one step is the loop body at index \<open>i\<close>. (The source's variables \<^verbatim>\<open>hull\<close> and \<^verbatim>\<open>centroid\<close>
  are \<open>hullRing\<close> and \<open>pivot\<close> here.)
\<close>

type_synonym calipers = "jsnum \<times> polygon option \<times> rat"

definition calipersStep :: "turf \<Rightarrow> polygon \<Rightarrow> ring \<Rightarrow> nat \<Rightarrow> position \<Rightarrow> calipers \<Rightarrow> nat \<Rightarrow> calipers" where
  "calipersStep T convexHull hullRing numPoints pivot st i =
     (let currentPoint = hullRing ! i;
          nextPoint = hullRing ! ((i + 1) mod numPoints);
          angle = t_bearing T currentPoint nextPoint;
          rotatedHull = t_transformRotate T convexHull (- angle) pivot;
          bbox = t_bboxPolygon T (t_bbox T rotatedHull);
          bboxArea = t_area T bbox
      in if js_lt (Num bboxArea) (fst st)
         then (Num bboxArea, Some (t_transformRotate T bbox angle pivot), angle)
         else (fst st, fst (snd st), angle))"

definition calipersLoop :: "turf \<Rightarrow> polygon \<Rightarrow> ring \<Rightarrow> position \<Rightarrow> calipers" where
  "calipersLoop T convexHull hullRing pivot =
     foldl (calipersStep T convexHull hullRing (length hullRing - 1) pivot)
       (PosInf, None, 0) [0 ..< length hullRing - 1]"

text \<open>
  \<^verbatim>\<open>turf.centroid(convexHull)\<close>, called before the loop, is the mean of the vertices of the
  polygon, the closing position of each ring left out. When no vertex is left (every ring
  has at most one position) the mean is \<^verbatim>\<open>0 / 0\<close> and \<^verbatim>\<open>turf.point\<close> throws
  "coordinates must contain numbers". \<open>openVertices\<close> are the vertices the mean is taken
  over.
\<close>

definition openVertices :: "polygon \<Rightarrow> position list" where
  "openVertices g = concat (map butlast g)"

definition turfCentroid :: "turf \<Rightarrow> polygon \<Rightarrow> error + position" where
  "turfCentroid T g = (if length (openVertices g) = 0 then Inl TurfError else Inr (t_centroid T g))"

definition getMinBoundingBox :: "turf \<Rightarrow> polygon \<Rightarrow> rat \<Rightarrow> error + polygon" where
  "getMinBoundingBox T convexHull orientation =
     (case convexHull of
        [] \<Rightarrow> Inl TypeError
      | hullRing # _ \<Rightarrow>
          (case turfCentroid T convexHull of
             Inl e \<Rightarrow> Inl e
           | Inr pivot \<Rightarrow>
               (let st = calipersLoop T convexHull hullRing pivot;
                    angle = snd (snd st);
                    bestBoundingBox =
                      (if 0 < orientation
                       then (let rotatedHull = t_transformRotate T convexHull (- (angle + orientation)) pivot;
                                 bbox = t_bboxPolygon T (t_bbox T rotatedHull)
                             in Some (t_transformRotate T bbox (angle + orientation) pivot))
                       else fst (snd st))
                in case bestBoundingBox of
                     None \<Rightarrow> Inl DegenerateHull
                   | Some b \<Rightarrow> polygon_ctor b)))"

text \<open>
  The rectangle of the specification's step 3, in its words: the axis-aligned bounding
  box of the hull rotated by \<open>-(\<theta> + \<delta>)\<close>, rotated back by \<open>+(\<theta> + \<delta>)\<close>, about the hull's
  centroid; and \<open>\<theta>\<^sub>l\<^sub>a\<^sub>s\<^sub>t\<close>, the bearing of the last hull edge, from the last vertex
  before the closing one to the first vertex.
\<close>

definition offsetBox :: "turf \<Rightarrow> polygon \<Rightarrow> rat \<Rightarrow> polygon" where
  "offsetBox T convexHull rotation =
     t_transformRotate T
       (t_bboxPolygon T (t_bbox T (t_transformRotate T convexHull (- rotation) (t_centroid T convexHull))))
       rotation (t_centroid T convexHull)"

definition lastEdgeBearing :: "turf \<Rightarrow> ring \<Rightarrow> rat" where
  "lastEdgeBearing T hullRing = t_bearing T (hullRing ! (length hullRing - 2)) (hullRing ! 0)"

definition distinctVertices :: "polygon \<Rightarrow> nat" where
  "distinctVertices p = card (set (concat p))"

section \<open>Coverage grid (\<^verbatim>\<open>coverage-grid.ts\<close>, \<^verbatim>\<open>getCoverageGrid\<close>)\<close>

text \<open>
  The loop that numbers the cells of \<^verbatim>\<open>turf.squareGrid\<close> in the generator's order: the
  first cell is row 0, column 0; a cell whose centroid has another x-coordinate than the
  previous cell's starts a new row.
\<close>

fun gridIndices :: "turf \<Rightarrow> position \<Rightarrow> int \<Rightarrow> int \<Rightarrow> polygon list \<Rightarrow> (int \<times> int) list" where
  "gridIndices T previousCentroid rowIndex colIndex [] = []"
| "gridIndices T previousCentroid rowIndex colIndex (g # gs) =
     (let cellCentroid = t_centroid T g;
          rowIndex' = (if fst cellCentroid \<noteq> fst previousCentroid then rowIndex + 1 else rowIndex);
          colIndex' = (if fst cellCentroid \<noteq> fst previousCentroid then 0 else colIndex + 1)
      in (rowIndex', colIndex') # gridIndices T cellCentroid rowIndex' colIndex' gs)"

definition assignIndices :: "turf \<Rightarrow> polygon list \<Rightarrow> (int \<times> int) list" where
  "assignIndices T grid =
     (case grid of [] \<Rightarrow> [] | g # gs \<Rightarrow> (0, 0) # gridIndices T (t_centroid T g) 0 0 gs)"

text \<open>
  The callback of \<^verbatim>\<open>alignedGrid.features.map\<close>. \<^verbatim>\<open>turf.buffer\<close> returns \<^verbatim>\<open>undefined\<close> when
  the eroded polygon is empty; \<^verbatim>\<open>booleanContains\<close> then fails on it. The loop over the
  obstacles stops at the first obstacle that contains the centroid.
\<close>

definition markCell :: "turf \<Rightarrow> polygon option \<Rightarrow> polygon list \<Rightarrow> polygon \<times> int \<times> int \<Rightarrow> error + cell" where
  "markCell T boundaryPolygon obstaclesPolygons f =
     (case f of
        (cellPolygon, r, c) \<Rightarrow>
          (let cellCentroid = t_centroid T cellPolygon
           in case boundaryPolygon of
                None \<Rightarrow> Inl TypeError
              | Some b \<Rightarrow>
                  Inr \<lparr> geometry = cellPolygon, gridRow = r, gridCol = c,
                        visited =
                          (if t_booleanContains T b cellCentroid
                           then (if list_ex (\<lambda>obstacle. t_booleanContains T obstacle cellCentroid)
                                      obstaclesPolygons
                                 then Unvisitable else Unvisited)
                           else Unvisitable),
                        centroid = cellCentroid \<rparr>))"

fun mapE :: "('a \<Rightarrow> error + 'b) \<Rightarrow> 'a list \<Rightarrow> error + 'b list" where
  "mapE f [] = Inr []"
| "mapE f (x # xs) =
     (case f x of
        Inl e \<Rightarrow> Inl e
      | Inr y \<Rightarrow> (case mapE f xs of Inl e \<Rightarrow> Inl e | Inr ys \<Rightarrow> Inr (y # ys)))"

text \<open>
  \<^verbatim>\<open>mbb.geometry.coordinates[0][0]\<close> and \<^verbatim>\<open>[0][1]\<close>: without a ring the index is read on
  \<^verbatim>\<open>undefined\<close>; with fewer than two positions \<^verbatim>\<open>turf.bearing\<close> is called on \<^verbatim>\<open>undefined\<close>
  and throws.
\<close>

definition getCoverageGrid ::
    "turf \<Rightarrow> polygon \<Rightarrow> polygon list option \<Rightarrow> polygon \<Rightarrow> rat \<Rightarrow> rat \<Rightarrow> error + cell list" where
  "getCoverageGrid T boundary obstacles mbb laneWidth startPoint =
     (let boundaryPolygon = t_buffer T boundary (- (1 / 100));
          obstaclesPolygons = (case obstacles of None \<Rightarrow> [] | Some os \<Rightarrow> os)
      in case mbb of
           [] \<Rightarrow> Inl TypeError
         | r # _ \<Rightarrow>
             (case r of
                p1 # p2 # _ \<Rightarrow>
                  (let angle = t_bearing T p1 p2;
                       pivot = t_centroid T mbb;
                       rotatedMbb = t_transformRotate T mbb (- angle + 90 * startPoint) pivot;
                       rotatedMbbBoundingBox = t_bbox T rotatedMbb;
                       grid = t_squareGrid T rotatedMbbBoundingBox laneWidth;
                       indices = assignIndices T grid;
                       alignedGrid =
                         map (\<lambda>g. t_transformRotate T g (angle - 90 * startPoint) pivot) grid
                   in mapE (markCell T boundaryPolygon obstaclesPolygons) (zip alignedGrid indices))
              | _ \<Rightarrow> Inl TurfError))"

section \<open>Clear-path router (\<^verbatim>\<open>voronoi-roadmap.ts\<close>)\<close>

text \<open>
  \<^verbatim>\<open>isPathClear\<close> (\<^verbatim>\<open>boundaries.ts\<close>): the segment is clear when \<^verbatim>\<open>turf.lineSplit\<close> by the
  polygons to avoid yields no piece. The polygons to avoid are built, in the router and in
  the sweep driver alike, as \<^verbatim>\<open>turf.multiPolygon([boundary.geometry.coordinates,
  [turf.coordAll(obstacles)]])\<close>: the boundary, and one polygon whose single ring is the
  sequence of all obstacle vertices.
\<close>

definition isPathClear :: "turf \<Rightarrow> linestring \<Rightarrow> polygon list \<Rightarrow> bool" where
  "isPathClear T segment polygonsToAvoid =
     (length (t_lineSplit T segment (MultiPolygonG polygonsToAvoid)) = 0)"

definition coordAll :: "polygon list \<Rightarrow> position list" where
  "coordAll fc = concat (map concat fc)"

definition boundaryAndObstacles :: "polygon \<Rightarrow> polygon list option \<Rightarrow> polygon list" where
  "boundaryAndObstacles boundary obstacles =
     [boundary, [coordAll (case obstacles of None \<Rightarrow> [] | Some os \<Rightarrow> os)]]"

subsection \<open>\<^verbatim>\<open>calculateAdjacencyGraph\<close>\<close>

text \<open>
  The graph maps a node key to its out-edges \<^verbatim>\<open>{ node, distance, path }\<close>. A road is
  entered in both directions, the second with the reversed coordinates, which pass
  through \<^verbatim>\<open>turf.lineString\<close>. On a road without coordinates \<^verbatim>\<open>start.map\<close> is a call on
  \<^verbatim>\<open>undefined\<close>.
\<close>

type_synonym edge = "key \<times> rat \<times> linestring"
type_synonym graph = "key \<rightharpoonup> edge list"

definition edgesOf :: "graph \<Rightarrow> key \<Rightarrow> edge list" where
  "edgesOf g k = (case g k of None \<Rightarrow> [] | Some es \<Rightarrow> es)"

definition addRoad :: "turf \<Rightarrow> graph \<Rightarrow> linestring \<Rightarrow> error + graph" where
  "addRoad T g road =
     (case road of
        [] \<Rightarrow> Inl TypeError
      | start # _ \<Rightarrow>
          (let end = last road;
               startKey = pointKey start;
               endKey = pointKey end;
               distance = t_length T road Meters;
               g1 = (if g startKey = None then g(startKey \<mapsto> []) else g);
               g2 = (if g1 endKey = None then g1(endKey \<mapsto> []) else g1);
               g3 = g2(startKey \<mapsto> edgesOf g2 startKey @ [(endKey, distance, road)])
           in case lineString (rev road) of
                Inl e \<Rightarrow> Inl e
              | Inr reversedRoad \<Rightarrow>
                  Inr (g3(endKey \<mapsto> edgesOf g3 endKey @ [(startKey, distance, reversedRoad)]))))"

fun addRoads :: "turf \<Rightarrow> graph \<Rightarrow> linestring list \<Rightarrow> error + graph" where
  "addRoads T g [] = Inr g"
| "addRoads T g (road # roads) =
     (case addRoad T g road of Inl e \<Rightarrow> Inl e | Inr g' \<Rightarrow> addRoads T g' roads)"

definition calculateAdjacencyGraph :: "turf \<Rightarrow> linestring list \<Rightarrow> error + graph" where
  "calculateAdjacencyGraph T voronoiRoadmap = addRoads T Map.empty voronoiRoadmap"

subsection \<open>\<^verbatim>\<open>getDijkstraPath\<close>\<close>

text \<open>
  The state of the search: \<^verbatim>\<open>distances\<close>, \<^verbatim>\<open>previous\<close> (\<open>None\<close> for \<^verbatim>\<open>null\<close>), the queue
  \<^verbatim>\<open>pq\<close>, and whether the loop is still running, has taken the end node from the queue,
  or has failed. \<^verbatim>\<open>undefined + distance\<close> is \<^verbatim>\<open>NaN\<close>.
\<close>

datatype phase = Running | Found | Failed error

record dijkstra =
  distances :: "key \<rightharpoonup> jsnum"
  previous :: "key \<rightharpoonup> key \<times> linestring"
  pq :: "(key \<times> rat) list"
  phase :: phase

fun jsAdd :: "jsnum \<Rightarrow> rat \<Rightarrow> jsnum" where
  "jsAdd (Num a) b = Num (a + b)"
| "jsAdd PosInf b = PosInf"
| "jsAdd NaN b = NaN"

text \<open>
  The callback of \<^verbatim>\<open>graph.get(currentNode)!.forEach\<close>: the neighbour is relaxed when the
  new total is less than its distance (never when either is not a number).
\<close>

definition relaxEdge :: "key \<Rightarrow> jsnum \<Rightarrow> dijkstra \<Rightarrow> edge \<Rightarrow> dijkstra" where
  "relaxEdge currentNode currentDistance st e =
     (case e of
        (neighbor, distance, path) \<Rightarrow>
          (case jsAdd currentDistance distance of
             Num totalDistance \<Rightarrow>
               (case distances st neighbor of
                  None \<Rightarrow> st
                | Some d \<Rightarrow>
                    if js_lt (Num totalDistance) d
                    then st\<lparr> distances := (distances st)(neighbor \<mapsto> Num totalDistance),
                             previous := (previous st)(neighbor \<mapsto> (currentNode, path)),
                             pq := pq st @ [(neighbor, totalDistance)] \<rparr>
                    else st)
           | _ \<Rightarrow> st))"

text \<open>
  One iteration of \<^verbatim>\<open>while (pq.length > 0)\<close>: the queue is sorted by distance (the sort is
  stable), its head is removed; at the end node the loop is left for the reconstruction,
  otherwise the out-edges of the node are relaxed.
\<close>

definition dijkstraStep :: "graph \<Rightarrow> key \<Rightarrow> dijkstra \<Rightarrow> dijkstra" where
  "dijkstraStep g endKey st =
     (case sort_key snd (pq st) of
        [] \<Rightarrow> st
      | (currentNode, _) # rest \<Rightarrow>
          (let currentDistance = (case distances st currentNode of None \<Rightarrow> NaN | Some d \<Rightarrow> d)
           in if currentNode = endKey then st\<lparr> pq := rest, phase := Found \<rparr>
              else (case g currentNode of
                      None \<Rightarrow> st\<lparr> pq := rest, phase := Failed TypeError \<rparr>
                    | Some edges \<Rightarrow>
                        foldl (relaxEdge currentNode currentDistance) (st\<lparr> pq := rest \<rparr>) edges)))"

text \<open>
  The reconstruction \<^verbatim>\<open>while (node) { prev = previous.get(node); if (!prev) break;
  fullPath.unshift(...prev.path.geometry.coordinates); node = prev.node; }\<close>. It need not
  end on an arbitrary \<^verbatim>\<open>previous\<close> map: \<open>None\<close> is the loop that runs forever.
\<close>

definition reconstructPath :: "(key \<rightharpoonup> key \<times> linestring) \<Rightarrow> key \<Rightarrow> position list option" where
  "reconstructPath prev endKey =
     map_option snd
       (while_option (\<lambda>(node, fullPath). prev node \<noteq> None)
          (\<lambda>(node, fullPath). case prev node of
                                 None \<Rightarrow> (node, fullPath)
                               | Some (n, path) \<Rightarrow> (n, path @ fullPath))
          (endKey, []))"

definition dijkstraInit :: "graph \<Rightarrow> key \<Rightarrow> dijkstra" where
  "dijkstraInit g startKey =
     \<lparr> distances = (\<lambda>k. if g k = None then None else Some PosInf)(startKey \<mapsto> Num 0),
       previous = Map.empty,
       pq = [(startKey, 0)],
       phase = Running \<rparr>"

text \<open>
  The result is \<open>None\<close> when a loop does not end, \<open>Some (Inl e)\<close> for an exception,
  \<open>Some (Inr None)\<close> for \<^verbatim>\<open>null\<close> and \<open>Some (Inr (Some l))\<close> for a path.
\<close>

definition getDijkstraPath :: "graph \<Rightarrow> position \<Rightarrow> position \<Rightarrow> (error + linestring option) option" where
  "getDijkstraPath g start end =
     (let startKey = pointKey start; endKey = pointKey end
      in if g startKey = None \<or> g endKey = None then Some (Inr None)
         else (case while_option (\<lambda>st. pq st \<noteq> [] \<and> phase st = Running)
                      (dijkstraStep g endKey) (dijkstraInit g startKey) of
                 None \<Rightarrow> None
               | Some st \<Rightarrow>
                   (case phase st of
                      Failed e \<Rightarrow> Some (Inl e)
                    | Running \<Rightarrow> Some (Inr None)
                    | Found \<Rightarrow>
                        (case reconstructPath (previous st) endKey of
                           None \<Rightarrow> None
                         | Some fullPath \<Rightarrow>
                             (case lineString fullPath of
                                Inl e \<Rightarrow> Some (Inl e)
                              | Inr l \<Rightarrow> Some (Inr (Some l)))))))"

subsection \<open>\<^verbatim>\<open>calculateClearPath\<close>\<close>

text \<open>
  The stitches: for every road, the nearest points to the start and to the end; the
  shortest clear stitch of each kind is kept with the road it lands on. A road is
  identified by its index in the roadmap (the source compares object references).
\<close>

record stitch =
  shortStartDistance :: jsnum
  shortEndDistance :: jsnum
  startPath :: "linestring option"
  endPath :: "linestring option"
  startRoadSegment :: "nat option"
  endRoadSegment :: "nat option"

definition stitchStep ::
    "turf \<Rightarrow> position \<Rightarrow> position \<Rightarrow> polygon list \<Rightarrow> stitch \<Rightarrow> nat \<times> linestring \<Rightarrow> stitch" where
  "stitchStep T start end region st ir =
     (case ir of
        (i, road) \<Rightarrow>
          (let tryStart = t_nearestPointOnLine T road start;
               tryEnd = t_nearestPointOnLine T road end;
               tryStartPath = [start, tryStart];
               tryEndPath = [tryEnd, end];
               startDistance = t_length T tryStartPath Kilometers;
               endDistance = t_length T tryEndPath Kilometers;
               st1 = (if js_lt (Num startDistance) (shortStartDistance st)
                         \<and> isPathClear T tryStartPath region
                      then st\<lparr> shortStartDistance := Num startDistance,
                               startPath := Some tryStartPath,
                               startRoadSegment := Some i \<rparr>
                      else st)
           in if js_lt (Num endDistance) (shortEndDistance st1) \<and> isPathClear T tryEndPath region
              then st1\<lparr> shortEndDistance := Num endDistance,
                        endPath := Some tryEndPath,
                        endRoadSegment := Some i \<rparr>
              else st1))"

definition findStitches ::
    "turf \<Rightarrow> linestring list \<Rightarrow> position \<Rightarrow> position \<Rightarrow> polygon list \<Rightarrow> stitch" where
  "findStitches T roads start end region =
     foldl (stitchStep T start end region)
       \<lparr> shortStartDistance = PosInf, shortEndDistance = PosInf, startPath = None, endPath = None,
         startRoadSegment = None, endRoadSegment = None \<rparr>
       (zip [0 ..< length roads] roads)"

text \<open>
  The temporary roadmap: the roads other than the two landing roads, the pieces of the
  landing roads split by the stitches prolonged by 1 cm, and the two stitches.
\<close>

definition tempVoronoiRoadmap ::
    "turf \<Rightarrow> linestring list \<Rightarrow> linestring \<Rightarrow> linestring \<Rightarrow> nat \<Rightarrow> nat \<Rightarrow> linestring list" where
  "tempVoronoiRoadmap T roads sp ep si ei =
     (let startPathBearing = t_bearing T (sp ! 0) (sp ! 1);
          extendedStartPoint = t_destination T (sp ! 1) (1 / 100) startPathBearing;
          startPathSplitter = [sp ! 0, extendedStartPoint];
          endPathBearing = t_bearing T (ep ! 1) (ep ! 0);
          extendedEndPoint = t_destination T (ep ! 0) (1 / 100) endPathBearing;
          endPathSplitter = [extendedEndPoint, ep ! 1];
          splitStartRoad = t_lineSplit T (roads ! si) (LineStringG startPathSplitter);
          splitEndRoad = t_lineSplit T (roads ! ei) (LineStringG endPathSplitter)
      in map snd (filter (\<lambda>ir. fst ir \<noteq> si \<and> fst ir \<noteq> ei) (zip [0 ..< length roads] roads))
         @ splitStartRoad @ splitEndRoad @ [sp, ep])"

text \<open>The callback that removes consecutive points with the same fingerprint.\<close>

definition dedupStep :: "position list \<Rightarrow> position \<Rightarrow> position list" where
  "dedupStep acc cur =
     (if length acc = 0 then acc @ [cur]
      else if pointKey (last acc) \<noteq> pointKey cur then acc @ [cur]
      else acc)"

definition filteredCoordinates :: "position list \<Rightarrow> position list" where
  "filteredCoordinates cs = foldl dedupStep [] cs"

text \<open>
  \<^verbatim>\<open>calculateClearPath\<close>. The roadmap parameter is \<open>None\<close> when the caller passes \<^verbatim>\<open>null\<close>
  through its cast; \<^verbatim>\<open>voronoiRoadmap.features\<close> then fails, after the direct test.
\<close>

definition calculateClearPath ::
    "turf \<Rightarrow> linestring list option \<Rightarrow> position \<Rightarrow> position \<Rightarrow> polygon \<Rightarrow> polygon list option
     \<Rightarrow> (error + linestring option) option" where
  "calculateClearPath T voronoiRoadmap start end boundary obstacles =
     (let region = boundaryAndObstacles boundary obstacles;
          directLine = [start, end]
      in if isPathClear T directLine region then Some (Inr (Some directLine))
         else (case voronoiRoadmap of
                 None \<Rightarrow> Some (Inl TypeError)
               | Some roads \<Rightarrow>
                   (let st = findStitches T roads start end region
                    in case (startPath st, endPath st, startRoadSegment st, endRoadSegment st) of
                         (Some sp, Some ep, Some si, Some ei) \<Rightarrow>
                           (case calculateAdjacencyGraph T (tempVoronoiRoadmap T roads sp ep si ei) of
                              Inl e \<Rightarrow> Some (Inl e)
                            | Inr newGraph \<Rightarrow>
                                (case getDijkstraPath newGraph start end of
                                   None \<Rightarrow> None
                                 | Some (Inl e) \<Rightarrow> Some (Inl e)
                                 | Some (Inr None) \<Rightarrow> Some (Inr None)
                                 | Some (Inr (Some dijkstraPath)) \<Rightarrow>
                                     (case lineString (filteredCoordinates dijkstraPath) of
                                        Inl e \<Rightarrow> Some (Inl e)
                                      | Inr l \<Rightarrow> Some (Inr (Some l)))))
                       | _ \<Rightarrow> Some (Inr None))))"

section \<open>Sweep driver (\<^verbatim>\<open>mow-path.ts\<close>, \<^verbatim>\<open>calculateMowPath\<close>)\<close>

text \<open>
  The grid is a list of cells; the driver changes the \<^verbatim>\<open>visited\<close> property of cells in
  place. A row (the result of \<^verbatim>\<open>coverageGrid.features.filter\<close>) holds references to cells
  of the grid, so it is a list of indices into the grid, and marking a cell updates the
  grid at its index.
\<close>

definition getRowCount :: "cell list \<Rightarrow> nat" where
  "getRowCount coverageGrid = length (remdups (map gridRow coverageGrid))"

definition markVisited :: "nat \<Rightarrow> cell list \<Rightarrow> cell list" where
  "markVisited i grid = grid[i := (grid ! i)\<lparr> visited := Visited \<rparr>]"

definition rowCells :: "cell list \<Rightarrow> int \<Rightarrow> nat list" where
  "rowCells grid rowIndex =
     filter (\<lambda>i. gridRow (grid ! i) = rowIndex \<and> visited (grid ! i) = Unvisited) [0 ..< length grid]"

text \<open>
  The search for the entry of a row: the index of the first cell of the row that the
  previous waypoint reaches by a clear straight segment.
\<close>

fun findEntry :: "turf \<Rightarrow> polygon list \<Rightarrow> cell list \<Rightarrow> position \<Rightarrow> nat list \<Rightarrow> nat \<Rightarrow> nat option" where
  "findEntry T region grid prevEndPoint [] i = None"
| "findEntry T region grid prevEndPoint (c # cs) i =
     (if isPathClear T [prevEndPoint, centroid (grid ! c)] region then Some i
      else findEntry T region grid prevEndPoint cs (i + 1))"

text \<open>
  The traversal of the rest of a row, from the cell after the entry. The result says
  whether the function returned from inside the loop, and gives the waypoints and the
  grid.
\<close>

fun traverseRow :: "int \<Rightarrow> nat \<Rightarrow> nat list \<Rightarrow> position list \<Rightarrow> cell list \<Rightarrow> bool \<times> position list \<times> cell list" where
  "traverseRow rowIndex prevCell [] waypoints grid = (False, waypoints, grid)"
| "traverseRow rowIndex prevCell (cell # rest) waypoints grid =
     (if 1 < \<bar>gridCol (grid ! cell) - gridCol (grid ! prevCell)\<bar>
      then (False, waypoints @ [centroid (grid ! prevCell)], grid)
      else if 2 \<le> length (filter (\<lambda>f. visited f = Unvisited \<and> gridRow f = rowIndex - 1
                                       \<and> \<bar>gridCol f - gridCol (grid ! cell)\<bar> \<le> 1) grid)
      then (True, waypoints @ [centroid (grid ! cell)], markVisited cell grid)
      else traverseRow rowIndex cell rest
             (if rest = [] then waypoints @ [centroid (grid ! cell)] else waypoints)
             (markVisited cell grid))"

fun sweepRows :: "turf \<Rightarrow> polygon list \<Rightarrow> int list \<Rightarrow> position list \<Rightarrow> cell list \<Rightarrow> position list \<times> cell list" where
  "sweepRows T region [] waypoints grid = (waypoints, grid)"
| "sweepRows T region (rowIndex # rows) waypoints grid =
     (let row0 = rowCells grid rowIndex
      in if length row0 = 0 then sweepRows T region rows waypoints grid
         else (let row = (if rowIndex mod 2 = 1 then rev row0 else row0);
                   startIndex = (if 0 < length waypoints
                                 then findEntry T region grid (last waypoints) row 0
                                 else Some 0)
               in case startIndex of
                    None \<Rightarrow> sweepRows T region rows waypoints grid
                  | Some s \<Rightarrow>
                      (case traverseRow rowIndex (row ! s) (drop (s + 1) row)
                              (waypoints @ [centroid (grid ! (row ! s))]) (markVisited (row ! s) grid) of
                         (returned, waypoints', grid') \<Rightarrow>
                           if returned then (waypoints', grid')
                           else sweepRows T region rows waypoints' grid')))"

text \<open>
  \<^verbatim>\<open>calculateMowPath\<close> returns the path and leaves the grid changed: the result is the pair
  of the path's coordinates and the grid. With an existing path whose coordinates are
  empty, \<^verbatim>\<open>lastEndPoint\<close> is \<^verbatim>\<open>undefined\<close> and turf cannot read it as a position.
\<close>

definition sweepFrom ::
    "turf \<Rightarrow> polygon \<Rightarrow> polygon list option \<Rightarrow> position list \<Rightarrow> cell list \<Rightarrow> linestring \<times> cell list" where
  "sweepFrom T boundary obstacles coords coverageGrid =
     (case sweepRows T (boundaryAndObstacles boundary obstacles)
             (map int [0 ..< getRowCount coverageGrid]) [] coverageGrid of
        (waypoints, grid) \<Rightarrow> (coords @ waypoints, grid))"

definition calculateMowPath ::
    "turf \<Rightarrow> linestring option \<Rightarrow> polygon \<Rightarrow> polygon list option \<Rightarrow> linestring list option \<Rightarrow> cell list
     \<Rightarrow> (error + linestring \<times> cell list) option" where
  "calculateMowPath T path boundary obstacles roadmap coverageGrid =
     (case path of
        None \<Rightarrow> Some (Inr (sweepFrom T boundary obstacles [] coverageGrid))
      | Some coords \<Rightarrow>
          (let unvisitedCells = filter (\<lambda>f. visited f = Unvisited) coverageGrid
           in if length unvisitedCells = 0 then Some (Inr (coords, coverageGrid))
              else if length coords = 0 then Some (Inl TypeError)
              else (case calculateClearPath T roadmap (last coords) (centroid (hd unvisitedCells))
                           boundary obstacles of
                      None \<Rightarrow> None
                    | Some (Inl e) \<Rightarrow> Some (Inl e)
                    | Some (Inr None) \<Rightarrow> Some (Inr (coords, coverageGrid))
                    | Some (Inr (Some pathToStart)) \<Rightarrow>
                        Some (Inr (sweepFrom T boundary obstacles (coords @ pathToStart) coverageGrid)))))"

section \<open>Orchestration (\<^verbatim>\<open>App.tsx\<close>: \<^verbatim>\<open>getCoverage\<close> and the end of \<^verbatim>\<open>generateAll\<close>)\<close>

text \<open>
  \<^verbatim>\<open>visitedCells.length / (unvisitedCells.length + visitedCells.length)\<close>: a division of
  two counts, \<^verbatim>\<open>NaN\<close> for \<^verbatim>\<open>0 / 0\<close>.
\<close>

definition jsDiv :: "nat \<Rightarrow> nat \<Rightarrow> jsnum" where
  "jsDiv a b = (if b = 0 then (if a = 0 then NaN else PosInf) else Num (of_nat a / of_nat b))"

definition getCoverage :: "cell list option \<Rightarrow> jsnum" where
  "getCoverage coverageGrid =
     (case coverageGrid of
        None \<Rightarrow> Num 0
      | Some grid \<Rightarrow>
          (let unvisitedCells = filter (\<lambda>f. visited f = Unvisited) grid;
               visitedCells = filter (\<lambda>f. visited f = Visited) grid
           in jsDiv (length visitedCells) (length unvisitedCells + length visitedCells)))"

text \<open>
  The loop \<^verbatim>\<open>while (getCoverage() < 0.99) { path = calculateMowPath(...);
  if (path?.geometry.coordinates.length === previousLength) break;
  previousLength = path?.geometry.coordinates.length || 0; }\<close>, started with
  \<^verbatim>\<open>path = null\<close> and \<^verbatim>\<open>previousLength = 0\<close>. The loop may run forever on an arbitrary grid;
  \<open>None\<close> is that case.
\<close>

partial_function (option) mowLoop ::
    "turf \<Rightarrow> polygon \<Rightarrow> polygon list option \<Rightarrow> linestring list option \<Rightarrow> linestring option \<Rightarrow> nat
     \<Rightarrow> cell list \<Rightarrow> (error + linestring option \<times> cell list) option" where
  "mowLoop T boundary obstacles roadmap path previousLength grid =
     (if js_lt (getCoverage (Some grid)) (Num (99 / 100))
      then (case calculateMowPath T path boundary obstacles roadmap grid of
              None \<Rightarrow> None
            | Some (Inl e) \<Rightarrow> Some (Inl e)
            | Some (Inr (path', grid')) \<Rightarrow>
                if length path' = previousLength then Some (Inr (Some path', grid'))
                else mowLoop T boundary obstacles roadmap (Some path') (length path') grid')
      else Some (Inr (path, grid)))"

declare mowLoop.simps [code]

text \<open>
  The end of \<^verbatim>\<open>generateAll\<close>, from \<^verbatim>\<open>let path = null\<close> to \<^verbatim>\<open>mowPath.value = path\<close>: the loop,
  then \<^verbatim>\<open>pruneExcessPoints(path, userSettings.value.laneWidth / 2)\<close>. The result is the
  value of the signal \<^verbatim>\<open>mowPath\<close> and the grid.
\<close>

definition planMowPath ::
    "turf \<Rightarrow> polygon \<Rightarrow> polygon list option \<Rightarrow> linestring list option \<Rightarrow> cell list \<Rightarrow> rat
     \<Rightarrow> (error + linestring option \<times> cell list) option" where
  "planMowPath T boundary obstacles roadmap coverageGrid laneWidth =
     (case mowLoop T boundary obstacles roadmap None 0 coverageGrid of
        None \<Rightarrow> None
      | Some (Inl e) \<Rightarrow> Some (Inl e)
      | Some (Inr (path, grid)) \<Rightarrow>
          (case pruneExcessPoints T path (laneWidth / 2) of
             Inl e \<Rightarrow> Some (Inl e)
           | Inr mowPath \<Rightarrow> Some (Inr (mowPath, grid))))"

section \<open>What the router's soundness speaks of\<close>

text \<open>
  The segments of a polyline; a polyline is clear when \<^verbatim>\<open>isPathClear\<close> holds of each of its
  segments; a set of roads is clear when every segment of every road is clear in both
  directions. \<open>routerRoads\<close> is the temporary roadmap \<^verbatim>\<open>calculateClearPath\<close> hands to
  \<^verbatim>\<open>calculateAdjacencyGraph\<close> (empty when it does not get that far). Points have distinct
  fingerprints when no two different points of the list share a key.
\<close>

definition segmentsOf :: "linestring \<Rightarrow> (position \<times> position) list" where
  "segmentsOf l = zip l (tl l)"

definition pathClear :: "turf \<Rightarrow> polygon list \<Rightarrow> linestring \<Rightarrow> bool" where
  "pathClear T region l = list_all (\<lambda>ab. isPathClear T [fst ab, snd ab] region) (segmentsOf l)"

definition roadsClear :: "turf \<Rightarrow> polygon list \<Rightarrow> linestring list \<Rightarrow> bool" where
  "roadsClear T region roads =
     list_all (\<lambda>road. list_all (\<lambda>ab. isPathClear T [fst ab, snd ab] region
                                    \<and> isPathClear T [snd ab, fst ab] region) (segmentsOf road)) roads"

definition routerRoads ::
    "turf \<Rightarrow> linestring list option \<Rightarrow> position \<Rightarrow> position \<Rightarrow> polygon \<Rightarrow> polygon list option
     \<Rightarrow> linestring list" where
  "routerRoads T voronoiRoadmap start end boundary obstacles =
     (case voronoiRoadmap of
        None \<Rightarrow> []
      | Some roads \<Rightarrow>
          (let st = findStitches T roads start end (boundaryAndObstacles boundary obstacles)
           in case (startPath st, endPath st, startRoadSegment st, endRoadSegment st) of
                (Some sp, Some ep, Some si, Some ei) \<Rightarrow> tempVoronoiRoadmap T roads sp ep si ei
              | _ \<Rightarrow> []))"




definition anchoredAt :: "position \<Rightarrow> position list \<Rightarrow> bool" where
  "anchoredAt x vs = list_all (\<lambda>v. pointKey v \<noteq> pointKey x \<or> v = x) vs"


section \<open>A planar instance of the primitives\<close>

text \<open>
  The theorems hold for every choice of the turf primitives. To evaluate the model on
  concrete inputs they are instantiated with planar geometry on rational coordinates
  (one coordinate unit is one metre), exact on the right-angled scenes it is used on:
  the taxicab distance (the Euclidean one between points that share a coordinate),
  bearings of axis-parallel directions, rotations by multiples of 90 degrees (clockwise
  for a positive angle, as \<^verbatim>\<open>transformRotate\<close>), containment between axis-parallel
  rectangles. Outside that range the functions return a fixed default. Primitives whose
  value depends on the scene (\<^verbatim>\<open>lineSplit\<close>, \<^verbatim>\<open>difference\<close>) are given with each scene.
\<close>

definition p_distance :: "position \<Rightarrow> position \<Rightarrow> rat" where
  "p_distance p q = \<bar>fst p - fst q\<bar> + \<bar>snd p - snd q\<bar>"

fun p_length :: "linestring \<Rightarrow> rat" where
  "p_length (p # q # r) = p_distance p q + p_length (q # r)"
| "p_length _ = 0"

definition p_bbox :: "polygon \<Rightarrow> bbox" where
  "p_bbox g =
     (case concat g of
        [] \<Rightarrow> (0, 0, 0, 0)
      | c # cs \<Rightarrow>
          (fold min (map fst cs) (fst c), fold min (map snd cs) (snd c),
           fold max (map fst cs) (fst c), fold max (map snd cs) (snd c)))"

definition p_bboxPolygon :: "bbox \<Rightarrow> polygon" where
  "p_bboxPolygon b = (case b of (w, s, e, n) \<Rightarrow> [[(w, s), (e, s), (e, n), (w, n), (w, s)]])"

text \<open>
  \<^verbatim>\<open>turf.centroid\<close> is the mean of the vertices, the closing position of each ring left out.
\<close>

definition p_centroid :: "polygon \<Rightarrow> position" where
  "p_centroid g =
     (case concat (map butlast g) of
        [] \<Rightarrow> (0, 0)
      | c # cs \<Rightarrow>
          (sum_list (map fst (c # cs)) / of_nat (length (c # cs)),
           sum_list (map snd (c # cs)) / of_nat (length (c # cs))))"

fun shoelace :: "ring \<Rightarrow> rat" where
  "shoelace (p # q # r) = fst p * snd q - fst q * snd p + shoelace (q # r)"
| "shoelace _ = 0"

definition p_area :: "polygon \<Rightarrow> rat" where
  "p_area g = (case g of [] \<Rightarrow> 0 | r # _ \<Rightarrow> \<bar>shoelace r\<bar> / 2)"

definition p_bearing :: "position \<Rightarrow> position \<Rightarrow> rat" where
  "p_bearing p q =
     (let dx = fst q - fst p; dy = snd q - snd p
      in if dx = 0 \<and> 0 \<le> dy then 0
         else if 0 < dx \<and> dy = 0 then 90
         else if dx = 0 \<and> dy < 0 then 180
         else if dx < 0 \<and> dy = 0 then - 90
         else 0)"

definition p_destination :: "position \<Rightarrow> rat \<Rightarrow> rat \<Rightarrow> position" where
  "p_destination p d bearing =
     (if bearing = 0 then (fst p, snd p + d)
      else if bearing = 90 then (fst p + d, snd p)
      else if bearing = 180 then (fst p, snd p - d)
      else if bearing = - 90 then (fst p - d, snd p)
      else p)"

definition p_rotatePoint :: "rat \<Rightarrow> position \<Rightarrow> position \<Rightarrow> position" where
  "p_rotatePoint angle pivot p =
     (let dx = fst p - fst pivot; dy = snd p - snd pivot; k = \<lfloor>angle / 90\<rfloor>
      in if of_int k * 90 \<noteq> angle then p
         else if k mod 4 = 0 then p
         else if k mod 4 = 1 then (fst pivot + dy, snd pivot - dx)
         else if k mod 4 = 2 then (fst pivot - dx, snd pivot - dy)
         else (fst pivot - dy, snd pivot + dx))"

definition p_transformRotate :: "polygon \<Rightarrow> rat \<Rightarrow> position \<Rightarrow> polygon" where
  "p_transformRotate g angle pivot = map (map (p_rotatePoint angle pivot)) g"

definition p_booleanWithin :: "polygon \<Rightarrow> polygon \<Rightarrow> bool" where
  "p_booleanWithin a b =
     (case (p_bbox a, p_bbox b) of
        ((w, s, e, n), (w', s', e', n')) \<Rightarrow> w' \<le> w \<and> s' \<le> s \<and> e \<le> e' \<and> n \<le> n')"

definition p_booleanContains :: "polygon \<Rightarrow> position \<Rightarrow> bool" where
  "p_booleanContains g p =
     (case p_bbox g of (w, s, e, n) \<Rightarrow> w < fst p \<and> fst p < e \<and> s < snd p \<and> snd p < n)"

definition p_buffer :: "polygon \<Rightarrow> rat \<Rightarrow> polygon option" where
  "p_buffer g d =
     (case p_bbox g of
        (w, s, e, n) \<Rightarrow>
          if w - d < e + d \<and> s - d < n + d then Some (p_bboxPolygon (w - d, s - d, e + d, n + d))
          else None)"

definition p_squareGrid :: "bbox \<Rightarrow> rat \<Rightarrow> polygon list" where
  "p_squareGrid b side =
     (case b of
        (w, s, e, n) \<Rightarrow>
          concat (map (\<lambda>i. map (\<lambda>j. p_bboxPolygon
                          (w + of_nat i * side, s + of_nat j * side,
                           w + of_nat (i + 1) * side, s + of_nat (j + 1) * side))
                        [0 ..< nat \<lfloor>(n - s) / side\<rfloor>])
                  [0 ..< nat \<lfloor>(e - w) / side\<rfloor>]))"

definition nearestOnSegment :: "position \<Rightarrow> position \<Rightarrow> position \<Rightarrow> position" where
  "nearestOnSegment a b p =
     (let dx = fst b - fst a; dy = snd b - snd a; len2 = dx * dx + dy * dy
      in if len2 = 0 then a
         else (let t = max 0 (min 1 (((fst p - fst a) * dx + (snd p - snd a) * dy) / len2))
               in (fst a + t * dx, snd a + t * dy)))"

definition sqdist :: "position \<Rightarrow> position \<Rightarrow> rat" where
  "sqdist p q = (fst p - fst q) * (fst p - fst q) + (snd p - snd q) * (snd p - snd q)"

fun nearestFrom :: "position \<Rightarrow> position \<Rightarrow> linestring \<Rightarrow> position" where
  "nearestFrom p best (a # b # r) =
     (let c = nearestOnSegment a b p
      in nearestFrom p (if sqdist p c < sqdist p best then c else best) (b # r))"
| "nearestFrom p best _ = best"

definition p_nearestPointOnLine :: "linestring \<Rightarrow> position \<Rightarrow> position" where
  "p_nearestPointOnLine l p = (case l of [] \<Rightarrow> p | a # _ \<Rightarrow> nearestFrom p a l)"

definition planar :: turf where
  "planar =
     \<lparr> t_distance = p_distance,
       t_lineSplit = (\<lambda>l g. []),
       t_convex = (\<lambda>g. Some (p_bboxPolygon (p_bbox g))),
       t_centroid = p_centroid,
       t_bearing = p_bearing,
       t_transformRotate = p_transformRotate,
       t_bbox = p_bbox,
       t_bboxPolygon = p_bboxPolygon,
       t_area = p_area,
       t_booleanWithin = p_booleanWithin,
       t_difference = (\<lambda>gs. None),
       t_buffer = p_buffer,
       t_squareGrid = p_squareGrid,
       t_booleanContains = p_booleanContains,
       t_nearestPointOnLine = p_nearestPointOnLine,
       t_length = (\<lambda>l u. case u of Meters \<Rightarrow> p_length l | Kilometers \<Rightarrow> p_length l / 1000),
       t_destination = p_destination \<rparr>"







text \<open>A hull ring of four positions, all the same point: a closed ring with one distinct vertex.\<close>

definition pointHull :: polygon where
  "pointHull = [[(1, 1), (1, 1), (1, 1), (1, 1)]]"

text \<open>
  Scene for the coverage grid: the boundary is the rectangle \<open>[0, 2] \<times> [0, 1]\<close>, the obstacle
  its east half \<open>[1, 2] \<times> [0, 1]\<close>, the bounding box handed to the grid the square
  \<open>[0, 2] \<times> [0, 2]\<close> (first edge pointing north), the lane width 1.
\<close>

definition gridBoundary :: polygon where
  "gridBoundary = [[(0, 0), (0, 1), (2, 1), (2, 0), (0, 0)]]"

definition gridObstacle :: polygon where
  "gridObstacle = [[(1, 0), (1, 1), (2, 1), (2, 0), (1, 0)]]"

definition gridMbb :: polygon where
  "gridMbb = [[(0, 0), (0, 2), (2, 2), (2, 0), (0, 0)]]"

definition gridCells :: "cell list" where
  "gridCells =
     [\<lparr>geometry = [[(0, 0), (1, 0), (1, 1), (0, 1), (0, 0)]], gridRow = 0, gridCol = 0,
        visited = Unvisited, centroid = (1 / 2, 1 / 2)\<rparr>,
      \<lparr>geometry = [[(0, 1), (1, 1), (1, 2), (0, 2), (0, 1)]], gridRow = 0, gridCol = 1,
        visited = Unvisitable, centroid = (1 / 2, 3 / 2)\<rparr>,
      \<lparr>geometry = [[(1, 0), (2, 0), (2, 1), (1, 1), (1, 0)]], gridRow = 1, gridCol = 0,
        visited = Unvisitable, centroid = (3 / 2, 1 / 2)\<rparr>,
      \<lparr>geometry = [[(1, 1), (2, 1), (2, 2), (1, 2), (1, 1)]], gridRow = 1, gridCol = 1,
        visited = Unvisitable, centroid = (3 / 2, 3 / 2)\<rparr>]"

text \<open>
  Scene for the router and the sweep driver. The field is \<open>[-1, 5] \<times> [-2, 2]\<close>, the obstacle
  \<open>[1, 3] \<times> [-1/2, 1/2]\<close>, the only road runs along \<open>y = 1\<close> from \<open>(0, 1)\<close> to \<open>(4, 1)\<close>. The
  straight segment from \<open>(0, 0)\<close> to \<open>(4, 0)\<close> crosses the obstacle, which splits it in
  three; no other segment of the scene meets the obstacle or the boundary. The stitches
  from \<open>(0, 0)\<close> and to \<open>(4, 0)\<close> land on the two ends of the road, where \<^verbatim>\<open>lineSplit\<close> by the
  prolonged stitch returns the road whole.
\<close>

definition fieldBoundary :: polygon where
  "fieldBoundary = [[(- 1, - 2), (5, - 2), (5, 2), (- 1, 2), (- 1, - 2)]]"

definition sideObstacle :: polygon where
  "sideObstacle = [[(1, - 1 / 2), (3, - 1 / 2), (3, 1 / 2), (1, 1 / 2), (1, - 1 / 2)]]"

definition sideRoad :: linestring where
  "sideRoad = [(0, 1), (4, 1)]"

definition detourScene :: turf where
  "detourScene = planar\<lparr> t_lineSplit :=
     (\<lambda>l g. case g of
        MultiPolygonG _ \<Rightarrow>
          if l = [(0, 0), (4, 0)] then [[(0, 0), (1, 0)], [(1, 0), (3, 0)], [(3, 0), (4, 0)]] else []
      | LineStringG _ \<Rightarrow> if l = sideRoad then [sideRoad] else []) \<rparr>"

text \<open>A unit cell of the grid around a centroid.\<close>

definition cellAt :: "rat \<Rightarrow> rat \<Rightarrow> int \<Rightarrow> int \<Rightarrow> visit \<Rightarrow> cell" where
  "cellAt x y r c v =
     \<lparr> geometry = p_bboxPolygon (x - 1 / 2, y - 1 / 2, x + 1 / 2, y + 1 / 2),
       gridRow = r, gridCol = c, visited = v, centroid = (x, y) \<rparr>"








text \<open>
  A scene with two roads that meet at points of one fingerprint. The yard is
  \<open>[0, 5] \<times> [-1, 6]\<close>, the obstacle \<open>[2 + 1/16000000, 4] \<times> [3/2, 7/2]\<close>. Road A runs west along
  \<open>y = 1\<close> from \<open>(3, 1)\<close> to \<open>(2 + 1/4000000, 1)\<close>, road B north along \<open>x = 2\<close> from \<open>(2, 1)\<close> to
  \<open>(2, 4)\<close>, road C east along \<open>y = 4\<close> from \<open>(2, 4)\<close> to \<open>(3, 4)\<close>; none meets the obstacle.
  The start is \<open>(3, 0)\<close>, the end \<open>(3, 5)\<close>. The segments of the scene that cross the
  obstacle are the straight one from start to end, the one from \<open>(3, 1)\<close> to the end, the
  one from the start to \<open>(3, 4)\<close>, and the one from the west end of road A to the north end
  of road B, which enters the obstacle through its south side and leaves through its
  west side. The stitches land on the east ends of roads A and C, where \<^verbatim>\<open>lineSplit\<close> by
  the prolonged stitch returns the road whole.
\<close>

definition yard :: polygon where
  "yard = [[(0, - 1), (5, - 1), (5, 6), (0, 6), (0, - 1)]]"

definition gapObstacle :: polygon where
  "gapObstacle =
     [[(2 + 1 / 16000000, 3 / 2), (4, 3 / 2), (4, 7 / 2), (2 + 1 / 16000000, 7 / 2),
       (2 + 1 / 16000000, 3 / 2)]]"

definition roadA :: linestring where
  "roadA = [(3, 1), (2 + 1 / 4000000, 1)]"

definition roadB :: linestring where
  "roadB = [(2, 1), (2, 4)]"

definition roadC :: linestring where
  "roadC = [(2, 4), (3, 4)]"

definition junctionScene :: turf where
  "junctionScene = planar\<lparr> t_lineSplit :=
     (\<lambda>l g. case g of
        MultiPolygonG _ \<Rightarrow>
          if l = [(3, 0), (3, 5)] then [[(3, 0), (3, 3 / 2)], [(3, 3 / 2), (3, 7 / 2)], [(3, 7 / 2), (3, 5)]]
          else if l = [(3, 1), (3, 5)] then [[(3, 1), (3, 3 / 2)], [(3, 3 / 2), (3, 7 / 2)], [(3, 7 / 2), (3, 5)]]
          else if l = [(3, 0), (3, 4)] then [[(3, 0), (3, 3 / 2)], [(3, 3 / 2), (3, 7 / 2)], [(3, 7 / 2), (3, 4)]]
          else if l = [(2 + 1 / 4000000, 1), (2, 4)]
          then [[(2 + 1 / 4000000, 1), (2 + 5 / 24000000, 3 / 2)],
                [(2 + 5 / 24000000, 3 / 2), (2 + 1 / 16000000, 13 / 4)],
                [(2 + 1 / 16000000, 13 / 4), (2, 4)]]
          else []
      | LineStringG _ \<Rightarrow> if l = roadA then [roadA] else if l = roadC then [roadC] else []) \<rparr>"

section \<open>Notions used in the proofs\<close>

text \<open>
  A list of vertices is spaced when every vertex is farther than \<^verbatim>\<open>pruneDistance\<close> from
  its predecessor.
\<close>

fun spaced :: "turf \<Rightarrow> rat \<Rightarrow> position list \<Rightarrow> bool" where
  "spaced T d [] = True"
| "spaced T d [a] = True"
| "spaced T d (a # b # xs) = (d < t_distance T a b \<and> spaced T d (b # xs))"

text \<open>
  The count stored for a key, and the invariant of the junction loop: a key is in
  \<^verbatim>\<open>branchPointKeys\<close> exactly when its count exceeds 2.
\<close>

definition cnt :: "pointMap \<Rightarrow> key \<Rightarrow> nat" where
  "cnt m k = (case m k of None \<Rightarrow> 0 | Some c \<Rightarrow> c)"

definition junctionInv :: "pointMap \<times> key set \<Rightarrow> bool" where
  "junctionInv st = (\<forall>k. k \<in> snd st \<longleftrightarrow> 2 < cnt (fst st) k)"









definition adj :: "'a list \<Rightarrow> ('a \<times> 'a) set" where
  "adj xs = set (zip xs (tl xs))"


section \<open>Pruning: idempotence and failure\<close>

text \<open>The pruned list is spaced, and pruning keeps a spaced list whole.\<close>

lemma spaced_snoc:
  "spaced T d xs \<Longrightarrow> (xs \<noteq> [] \<Longrightarrow> d < t_distance T (last xs) c) \<Longrightarrow> spaced T d (xs @ [c])"
  by (induction T d xs rule: spaced.induct) auto

lemma spaced_pruneStep: "spaced T d acc \<Longrightarrow> spaced T d (pruneStep T d acc c)"
  by (simp add: pruneStep_def spaced_snoc)

lemma spaced_foldl: "spaced T d acc \<Longrightarrow> spaced T d (foldl (pruneStep T d) acc cs)"
  by (induction cs arbitrary: acc) (simp_all add: spaced_pruneStep)

lemma foldl_spaced_keep:
  "spaced T d ks \<Longrightarrow> (acc \<noteq> [] \<Longrightarrow> ks \<noteq> [] \<Longrightarrow> d < t_distance T (last acc) (hd ks))
   \<Longrightarrow> foldl (pruneStep T d) acc ks = acc @ ks"
proof (induction ks arbitrary: acc)
  case Nil
  then show ?case by simp
next
  case (Cons k ks)
  have step: "pruneStep T d acc k = acc @ [k]"
    using Cons.prems(2) by (simp add: pruneStep_def)
  have sp: "spaced T d ks" using Cons.prems(1) by (cases ks) auto
  have nxt: "ks \<noteq> [] \<Longrightarrow> d < t_distance T (last (acc @ [k])) (hd ks)"
    using Cons.prems(1) by (cases ks) auto
  show ?case using Cons.IH[OF sp, of "acc @ [k]"] nxt step by simp
qed

lemma prunedCoordinates_idem:
  "prunedCoordinates T d (prunedCoordinates T d cs) = prunedCoordinates T d cs"
proof -
  have "spaced T d (prunedCoordinates T d cs)"
    unfolding prunedCoordinates_def by (rule spaced_foldl) simp
  then show ?thesis
    using foldl_spaced_keep[of T d "prunedCoordinates T d cs" "[]"]
    by (simp add: prunedCoordinates_def)
qed

text \<open>
  Claim C7. Pruning twice with the same \<^verbatim>\<open>pruneDistance\<close> gives what pruning once gives:
  the same polyline, the same \<^verbatim>\<open>null\<close> on a \<^verbatim>\<open>null\<close> path, and the same exception when
  the first pruning already throws (the second is then never reached).
\<close>

theorem pruneExcessPoints_idempotent:
  "(case pruneExcessPoints T path d of
      Inl e \<Rightarrow> Inl e
    | Inr p \<Rightarrow> pruneExcessPoints T p d)
   = pruneExcessPoints T path d"
  by (cases path)
     (auto simp: pruneExcessPoints_def lineString_def prunedCoordinates_idem split: sum.splits)

theorem pruneExcessPoints_idempotent_witness:
  "pruneExcessPoints planar (Some [(0, 0), (0, 1), (0, 3), (0, 7 / 2), (0, 6)]) 1
     = Inr (Some [(0, 0), (0, 3), (0, 6)])
   \<and> pruneExcessPoints planar (Some [(0, 0), (0, 3), (0, 6)]) 1 = Inr (Some [(0, 0), (0, 3), (0, 6)])"
proof -
  have once: "pruneExcessPoints planar (Some [(0, 0), (0, 1), (0, 3), (0, 7 / 2), (0, 6)]) 1
      = Inr (Some [(0, 0), (0, 3), (0, 6)])"
    by (simp add: pruneExcessPoints_def prunedCoordinates_def pruneStep_def lineString_def
        planar_def p_distance_def)
  show ?thesis
    using pruneExcessPoints_idempotent[where T = planar and d = 1
        and path = "Some [(0, 0), (0, 1), (0, 3), (0, 7 / 2), (0, 6)]"]
    by (simp add: once)
qed

lemma foldl_all_near:
  "acc \<noteq> [] \<Longrightarrow> \<forall>c\<in>set cs. \<not> d < t_distance T (last acc) c
   \<Longrightarrow> foldl (pruneStep T d) acc cs = acc"
  by (induction cs arbitrary: acc) (simp_all add: pruneStep_def)

lemma pruned_length_le: "length (foldl (pruneStep T d) acc cs) \<le> length acc + length cs"
proof (induction cs arbitrary: acc)
  case Nil
  then show ?case by simp
next
  case (Cons c cs)
  have "length (pruneStep T d acc c) \<le> Suc (length acc)" by (simp add: pruneStep_def)
  then show ?case using Cons.IH[of "pruneStep T d acc c"] by simp
qed

text \<open>
  Claim C9. \<^verbatim>\<open>pruneExcessPoints\<close> is not total on non-null paths: it throws (the error of
  \<^verbatim>\<open>turf.lineString\<close>) exactly when fewer than two vertices survive the pruning; in
  particular on a path with fewer than two coordinates, and on a path all of whose
  vertices lie within \<^verbatim>\<open>pruneDistance\<close> of the first vertex.
\<close>

theorem pruneExcessPoints_raises:
  "(pruneExcessPoints T (Some p) d = Inl TurfError \<longleftrightarrow> length (prunedCoordinates T d p) < 2)
   \<and> (length p < 2 \<longrightarrow> pruneExcessPoints T (Some p) d = Inl TurfError)
   \<and> ((\<forall>c\<in>set p. \<not> d < t_distance T (hd p) c) \<longrightarrow> pruneExcessPoints T (Some p) d = Inl TurfError)"
proof (intro conjI impI)
  show iff: "pruneExcessPoints T (Some p) d = Inl TurfError \<longleftrightarrow> length (prunedCoordinates T d p) < 2"
    by (simp add: pruneExcessPoints_def lineString_def)
  show "pruneExcessPoints T (Some p) d = Inl TurfError" if "length p < 2"
    using that pruned_length_le[of T d "[]" p] iff by (simp add: prunedCoordinates_def)
  show "pruneExcessPoints T (Some p) d = Inl TurfError"
    if near: "\<forall>c\<in>set p. \<not> d < t_distance T (hd p) c"
  proof (cases p)
    case Nil
    then show ?thesis using iff by (simp add: prunedCoordinates_def)
  next
    case (Cons a cs)
    have "foldl (pruneStep T d) [a] cs = [a]"
      using near Cons by (intro foldl_all_near) auto
    then show ?thesis using iff Cons by (simp add: prunedCoordinates_def pruneStep_def)
  qed
qed

theorem pruneExcessPoints_raises_witness:
  "list_all (\<lambda>c. \<not> 1 < t_distance planar (0, 0) c) [(0, 0), (0, 1 / 2), (1 / 4, 0)]
   \<and> pruneExcessPoints planar (Some [(0, 0), (0, 1 / 2), (1 / 4, 0)]) 1 = Inl TurfError
   \<and> length (prunedCoordinates planar 1 [(0, 0), (0, 1 / 2), (1 / 4, 0)]) < 2
   \<and> pruneExcessPoints planar (Some []) 1 = Inl TurfError"
proof -
  have near: "\<forall>c\<in>set [(0, 0), (0, 1 / 2), (1 / 4, 0)].
      \<not> 1 < t_distance planar (hd [(0, 0), (0, 1 / 2), (1 / 4, 0)]) c"
    by (simp add: planar_def p_distance_def)
  have short: "length ([] :: position list) < 2" by simp
  have near': "list_all (\<lambda>c. \<not> 1 < t_distance planar (0, 0) c) [(0, 0), (0, 1 / 2), (1 / 4, 0)]"
    by (simp add: planar_def p_distance_def)
  show ?thesis
    using near near' short
      pruneExcessPoints_raises[of planar "[(0, 0), (0, 1 / 2), (1 / 4, 0)]" 1]
      pruneExcessPoints_raises[of planar "[]" 1]
    by blast
qed

section \<open>Junction detection\<close>

lemma cnt_countEndpoint:
  "cnt (fst (countEndpoint st k)) k' = cnt (fst st) k' + (if k' = k then 1 else 0)"
  by (simp add: countEndpoint_def cnt_def Let_def)

lemma inv_countEndpoint: "junctionInv st \<Longrightarrow> junctionInv (countEndpoint st k)"
  unfolding junctionInv_def
  by (auto simp: countEndpoint_def cnt_def Let_def split: option.splits)

lemma branchPointsLoop_counts:
  "list_all (\<lambda>s. 2 \<le> length s) segs \<Longrightarrow>
   \<exists>st'. branchPointsLoop st segs = Inr st'
     \<and> (\<forall>k. cnt (fst st') k = cnt (fst st) k + count_list (endpointKeys segs) k)
     \<and> (junctionInv st \<longrightarrow> junctionInv st')"
proof (induction segs arbitrary: st)
  case Nil
  then show ?case by (simp add: endpointKeys_def)
next
  case (Cons s segs)
  from Cons.prems obtain a b r where s: "s = a # b # r"
    by (cases s; cases "tl s") auto
  let ?st1 = "countEndpoint (countEndpoint st (pointKey a)) (pointKey b)"
  from Cons.prems have "list_all (\<lambda>s. 2 \<le> length s) segs" by simp
  from Cons.IH[OF this, of ?st1] obtain st' where
    run: "branchPointsLoop ?st1 segs = Inr st'"
    and c: "\<forall>k. cnt (fst st') k = cnt (fst ?st1) k + count_list (endpointKeys segs) k"
    and i: "junctionInv ?st1 \<longrightarrow> junctionInv st'" by blast
  have "branchPointsLoop st (s # segs) = Inr st'" using run s by simp
  moreover have "\<forall>k. cnt (fst st') k = cnt (fst st) k + count_list (endpointKeys (s # segs)) k"
    using c s by (auto simp: cnt_countEndpoint endpointKeys_def)
  moreover have "junctionInv st \<longrightarrow> junctionInv st'"
    using i by (simp add: inv_countEndpoint)
  ultimately show ?case by blast
qed

text \<open>
  Claim C8. On segments with two endpoints each (what the roadmap builder feeds to
  junction detection), \<^verbatim>\<open>identifyBranchPoints\<close> returns, and a key is a branch point if and
  only if it occurs strictly more than twice among the endpoint keys, both endpoints of
  every segment counted. A key that occurs once or twice is therefore no branch point.
\<close>

theorem identifyBranchPoints_iff:
  "list_all (\<lambda>s. 2 \<le> length s) segments \<Longrightarrow>
   \<exists>bp. identifyBranchPoints segments = Inr bp
     \<and> (\<forall>k. k \<in> bp \<longleftrightarrow> 2 < count_list (endpointKeys segments) k)"
proof -
  assume "list_all (\<lambda>s. 2 \<le> length s) segments"
  from branchPointsLoop_counts[OF this, of "(Map.empty, {})"] obtain st' where
    run: "branchPointsLoop (Map.empty, {}) segments = Inr st'"
    and c: "\<forall>k. cnt (fst st') k = cnt Map.empty k + count_list (endpointKeys segments) k"
    and i: "junctionInv (Map.empty, {}) \<longrightarrow> junctionInv st'" by auto
  have "junctionInv (Map.empty, {})" by (simp add: junctionInv_def cnt_def)
  with i have "junctionInv st'" by simp
  then have "\<forall>k. k \<in> snd st' \<longleftrightarrow> 2 < count_list (endpointKeys segments) k"
    using c by (simp add: junctionInv_def cnt_def)
  then show ?thesis using run by (simp add: identifyBranchPoints_def)
qed

text \<open>Evaluating fingerprints: the integer nearest to the scaled absolute value.\<close>

lemma toFixed6_nonneg:
  "0 \<le> x \<Longrightarrow> of_int n \<le> x * 1000000 + 1 / 2 \<Longrightarrow> x * 1000000 + 1 / 2 < of_int n + 1
   \<Longrightarrow> toFixed6 x = (False, n)"
proof -
  assume a: "0 \<le> x" "of_int n \<le> x * 1000000 + 1 / 2" "x * 1000000 + 1 / 2 < of_int n + 1"
  have "\<lfloor>x * 1000000 + 1 / 2\<rfloor> = n"
    using a by (intro floor_unique) simp_all
  then show ?thesis using a by (simp add: toFixed6_def)
qed

lemma toFixed6_neg:
  "x < 0 \<Longrightarrow> of_int n \<le> - x * 1000000 + 1 / 2 \<Longrightarrow> - x * 1000000 + 1 / 2 < of_int n + 1
   \<Longrightarrow> toFixed6 x = (True, n)"
proof -
  assume a: "x < 0" "of_int n \<le> - x * 1000000 + 1 / 2" "- x * 1000000 + 1 / 2 < of_int n + 1"
  have "\<lfloor>- x * 1000000 + 1 / 2\<rfloor> = n"
    using a by (intro floor_unique) simp_all
  then show ?thesis using a by (simp add: toFixed6_def)
qed

lemma key_0_0: "pointKey (0, 0) = ((False, 0), (False, 0))"
  by (simp add: pointKey_def toFixed6_nonneg)

lemma key_1_0: "pointKey (1, 0) = ((False, 1000000), (False, 0))"
  by (simp add: pointKey_def toFixed6_nonneg)

lemma key_0_1: "pointKey (0, 1) = ((False, 0), (False, 1000000))"
  by (simp add: pointKey_def toFixed6_nonneg)

lemma key_m1_0: "pointKey (- 1, 0) = ((True, 1000000), (False, 0))"
  by (simp add: pointKey_def toFixed6_nonneg toFixed6_neg)

theorem identifyBranchPoints_iff_witness:
  "identifyBranchPoints [[(0, 0), (1, 0)], [(0, 0), (0, 1)], [(- 1, 0), (0, 0)]] = Inr {pointKey (0, 0)}
   \<and> 2 < count_list (endpointKeys [[(0, 0), (1, 0)], [(0, 0), (0, 1)], [(- 1, 0), (0, 0)]]) (pointKey (0, 0))
   \<and> \<not> 2 < count_list (endpointKeys [[(0, 0), (1, 0)], [(0, 0), (0, 1)], [(- 1, 0), (0, 0)]]) (pointKey (1, 0))"
proof -
  let ?segs = "[[(0, 0), (1, 0)], [(0, 0), (0, 1)], [(- 1, 0), (0, 0)]] :: linestring list"
  have ok: "list_all (\<lambda>s. 2 \<le> length s) ?segs" by simp
  have ev: "identifyBranchPoints ?segs = Inr {pointKey (0, 0)}"
    by (simp add: identifyBranchPoints_def countEndpoint_def key_0_0 key_1_0 key_0_1 key_m1_0)
  from identifyBranchPoints_iff[OF ok] ev
  have iff: "\<And>k. k \<in> {pointKey (0, 0)} \<longleftrightarrow> 2 < count_list (endpointKeys ?segs) k" by auto
  have ne: "pointKey (1, 0) \<noteq> pointKey (0, 0)" by (simp add: key_0_0 key_1_0)
  have "2 < count_list (endpointKeys ?segs) (pointKey (0, 0))"
    using iff[of "pointKey (0, 0)"] by simp
  moreover have "\<not> 2 < count_list (endpointKeys ?segs) (pointKey (1, 0))"
    using iff[of "pointKey (1, 0)"] ne by simp
  ultimately show ?thesis using ev by blast
qed

section \<open>Boundary conditioner: the working obstacle set\<close>








section \<open>Minimum bounding box: the error and the orientation offset\<close>

lemma calipersStep_keeps_box:
  "fst (snd st) \<noteq> None \<Longrightarrow> fst (snd (calipersStep T g h n c st i)) \<noteq> None"
  by (simp add: calipersStep_def Let_def)

lemma calipers_foldl_keeps_box:
  "fst (snd st) \<noteq> None \<Longrightarrow> fst (snd (foldl (calipersStep T g h n c) st is)) \<noteq> None"
proof (induction "is" arbitrary: st)
  case Nil
  then show ?case by simp
next
  case (Cons i "is")
  from Cons.prems have "fst (snd (calipersStep T g h n c st i)) \<noteq> None"
    by (rule calipersStep_keeps_box)
  from Cons.IH[OF this] show ?case by simp
qed

lemma calipersStep_first:
  "fst (snd (calipersStep T g h n c (PosInf, None, a) i)) \<noteq> None"
  by (simp add: calipersStep_def Let_def)

text \<open>
  The loop records a rectangle as soon as it runs once (every area is less than
  \<^verbatim>\<open>Infinity\<close>), so it finds none exactly when the hull ring has at most one position.
\<close>

lemma calipersLoop_box:
  "fst (snd (calipersLoop T g h c)) = None \<longleftrightarrow> length h \<le> 1"
proof (cases "length h \<le> 1")
  case True
  then show ?thesis by (simp add: calipersLoop_def)
next
  case False
  then have "[0 ..< length h - 1] = 0 # [1 ..< length h - 1]"
    by (simp add: upt_rec)
  then have "fst (snd (calipersLoop T g h c)) \<noteq> None"
    by (simp add: calipersLoop_def calipers_foldl_keeps_box calipersStep_first)
  with False show ?thesis by simp
qed

lemma calipersStep_angle:
  "snd (snd (calipersStep T g h n c st i)) = t_bearing T (h ! i) (h ! ((i + 1) mod n))"
  by (simp add: calipersStep_def Let_def)

lemma calipersLoop_angle:
  assumes "2 \<le> length h"
  shows "snd (snd (calipersLoop T g h c)) = lastEdgeBearing T h"
proof -
  obtain n where n: "length h - 1 = Suc n" using assms by (cases "length h - 1") auto
  then have "[0 ..< length h - 1] = [0 ..< n] @ [n]" by simp
  then have "snd (snd (calipersLoop T g h c)) = t_bearing T (h ! n) (h ! ((n + 1) mod Suc n))"
    unfolding calipersLoop_def n by (simp add: calipersStep_angle)
  moreover have "length h - 2 = n" using n by simp
  ultimately show ?thesis by (simp add: lastEdgeBearing_def)
qed

lemma polygon_ctor_not_degenerate: "polygon_ctor b \<noteq> Inl DegenerateHull"
  by (simp add: polygon_ctor_def)

text \<open>
  Claim C3 as stated fails. A hull whose ring is four copies of one point has fewer than
  three distinct vertices, yet \<^verbatim>\<open>getMinBoundingBox\<close> returns a (degenerate) rectangle for the
  offset 0: the loop runs and the area 0 is less than \<^verbatim>\<open>Infinity\<close>. For the offset 90 it
  returns one as well: the branch \<^verbatim>\<open>orientation > 0\<close> assigns \<^verbatim>\<open>bestBoundingBox\<close> before
  the \<^verbatim>\<open>null\<close> test.
\<close>

theorem getMinBoundingBox_counterexample:
  "distinctVertices pointHull < 3
   \<and> getMinBoundingBox planar pointHull 0 = Inr [[(1, 1), (1, 1), (1, 1), (1, 1), (1, 1)]]
   \<and> getMinBoundingBox planar pointHull 90 = Inr [[(1, 1), (1, 1), (1, 1), (1, 1), (1, 1)]]"
proof -
  have "distinctVertices pointHull < 3" by (simp add: distinctVertices_def pointHull_def)
  moreover have "getMinBoundingBox planar pointHull 0 = Inr [[(1, 1), (1, 1), (1, 1), (1, 1), (1, 1)]]"
    by code_simp
  moreover have "getMinBoundingBox planar pointHull 90 = Inr [[(1, 1), (1, 1), (1, 1), (1, 1), (1, 1)]]"
    by code_simp
  ultimately show ?thesis by blast
qed

lemma openVertices_Nil:
  "openVertices g = [] \<longleftrightarrow> list_all (\<lambda>r. length r \<le> 1) g"
proof (induction g)
  case Nil
  then show ?case by (simp add: openVertices_def)
next
  case (Cons r g)
  have "butlast r = [] \<longleftrightarrow> length r \<le> 1" by (cases r) auto
  with Cons show ?case by (simp add: openVertices_def)
qed

lemma turfCentroid_ring:
  "2 \<le> length hullRing \<Longrightarrow> turfCentroid T (hullRing # holes) = Inr (t_centroid T (hullRing # holes))"
  by (cases hullRing) (auto simp: turfCentroid_def openVertices_def)

text \<open>
  Claim C3, amended. \<^verbatim>\<open>getMinBoundingBox\<close> signals the error "Unable to calculate minimum
  bounding box" exactly when the hull ring has at most one position (the calipers loop has
  no edge to try and finds no rectangle), the orientation offset is not greater than 0, and
  some other ring of the polygon still has a vertex for \<^verbatim>\<open>turf.centroid\<close> to average. When
  no ring has more than one position, \<^verbatim>\<open>turf.centroid\<close> throws its own error before the
  loop. So on a hull of a single ring, which is all \<^verbatim>\<open>turf.convex\<close> produces, the error is
  never signalled, whatever the number of distinct vertices.
\<close>

theorem getMinBoundingBox_error_iff:
  "(getMinBoundingBox T (hullRing # holes) orientation = Inl DegenerateHull
      \<longleftrightarrow> length hullRing \<le> 1 \<and> \<not> 0 < orientation \<and> openVertices (hullRing # holes) \<noteq> [])
   \<and> (list_all (\<lambda>r. length r \<le> 1) (hullRing # holes)
        \<longrightarrow> getMinBoundingBox T (hullRing # holes) orientation = Inl TurfError)
   \<and> getMinBoundingBox T [hullRing] orientation \<noteq> Inl DegenerateHull"
proof (intro conjI)
  show "getMinBoundingBox T (hullRing # holes) orientation = Inl DegenerateHull
      \<longleftrightarrow> length hullRing \<le> 1 \<and> \<not> 0 < orientation \<and> openVertices (hullRing # holes) \<noteq> []"
    using calipersLoop_box[of T "hullRing # holes" hullRing "t_centroid T (hullRing # holes)"]
    by (auto simp: getMinBoundingBox_def turfCentroid_def Let_def polygon_ctor_not_degenerate
        split: option.splits)
  show "list_all (\<lambda>r. length r \<le> 1) (hullRing # holes)
        \<longrightarrow> getMinBoundingBox T (hullRing # holes) orientation = Inl TurfError"
    using openVertices_Nil[of "hullRing # holes"]
    by (simp add: getMinBoundingBox_def turfCentroid_def)
  have "length hullRing \<le> 1 \<longrightarrow> openVertices [hullRing] = []"
    using openVertices_Nil[of "[hullRing]"] by simp
  then show "getMinBoundingBox T [hullRing] orientation \<noteq> Inl DegenerateHull"
    using calipersLoop_box[of T "[hullRing]" hullRing "t_centroid T [hullRing]"]
    by (auto simp: getMinBoundingBox_def turfCentroid_def Let_def polygon_ctor_not_degenerate
        split: option.splits)
qed

theorem getMinBoundingBox_error_iff_witness:
  "getMinBoundingBox planar [[(1, 1)], [(0, 0), (2, 0), (2, 2), (0, 0)]] 0 = Inl DegenerateHull
   \<and> getMinBoundingBox planar [[(1, 1)], [(0, 0), (2, 0), (2, 2), (0, 0)]] 90 \<noteq> Inl DegenerateHull
   \<and> getMinBoundingBox planar [[(1, 1)]] 0 = Inl TurfError
   \<and> getMinBoundingBox planar [[(1, 1)]] 90 = Inl TurfError"
  using getMinBoundingBox_error_iff[of planar "[(1, 1)]" "[[(0, 0), (2, 0), (2, 2), (0, 0)]]" 0]
    getMinBoundingBox_error_iff[of planar "[(1, 1)]" "[[(0, 0), (2, 0), (2, 2), (0, 0)]]" 90]
    getMinBoundingBox_error_iff[of planar "[(1, 1)]" "[]" 0]
    getMinBoundingBox_error_iff[of planar "[(1, 1)]" "[]" 90]
  by (simp add: openVertices_def)

text \<open>
  Claim C4. For a hull with at least one edge and an offset \<open>\<delta> > 0\<close>, the result is the
  axis-aligned bounding box of the hull rotated about its centroid by \<open>-(\<theta>\<^sub>l\<^sub>a\<^sub>s\<^sub>t + \<delta>)\<close>,
  rotated back by \<open>+(\<theta>\<^sub>l\<^sub>a\<^sub>s\<^sub>t + \<delta>)\<close>, where \<open>\<theta>\<^sub>l\<^sub>a\<^sub>s\<^sub>t\<close> is the bearing of the last hull edge
  the loop considers, whichever edge won; it is passed through \<^verbatim>\<open>turf.polygon\<close>.
\<close>

theorem getMinBoundingBox_offset:
  "2 \<le> length hullRing \<Longrightarrow> 0 < orientation \<Longrightarrow>
   getMinBoundingBox T (hullRing # holes) orientation
     = polygon_ctor (offsetBox T (hullRing # holes) (lastEdgeBearing T hullRing + orientation))"
  by (simp add: getMinBoundingBox_def Let_def offsetBox_def calipersLoop_angle turfCentroid_ring)

theorem getMinBoundingBox_offset_witness:
  "lastEdgeBearing planar [(0, 0), (2, 0), (2, 1), (0, 1), (0, 0)] = 180
   \<and> getMinBoundingBox planar [[(0, 0), (2, 0), (2, 1), (0, 1), (0, 0)]] 90
       = polygon_ctor (offsetBox planar [[(0, 0), (2, 0), (2, 1), (0, 1), (0, 0)]] 270)
   \<and> getMinBoundingBox planar [[(0, 0), (2, 0), (2, 1), (0, 1), (0, 0)]] 90
       = Inr [[(2, 0), (2, 1), (0, 1), (0, 0), (2, 0)]]"
proof -
  have b: "lastEdgeBearing planar [(0, 0), (2, 0), (2, 1), (0, 1), (0, 0)] = 180"
    by (simp add: lastEdgeBearing_def planar_def p_bearing_def)
  have len: "2 \<le> length [(0, 0), (2, 0), (2, 1), (0, 1), (0 :: rat, 0 :: rat)]" by simp
  have pos: "(0 :: rat) < 90" by simp
  have r: "getMinBoundingBox planar [[(0, 0), (2, 0), (2, 1), (0, 1), (0, 0)]] 90
      = Inr [[(2, 0), (2, 1), (0, 1), (0, 0), (2, 0)]]"
    by code_simp
  show ?thesis
    using getMinBoundingBox_offset[OF len pos, of planar "[]"] b r by simp
qed

section \<open>Coverage grid: the labels\<close>

lemma mapE_member:
  "mapE f xs = Inr ys \<Longrightarrow> y \<in> set ys \<Longrightarrow> \<exists>x\<in>set xs. f x = Inr y"
proof (induction xs arbitrary: ys)
  case Nil
  then show ?case by simp
next
  case (Cons x xs)
  then show ?case by (auto split: sum.splits)
qed

lemma markCell_label:
  "markCell T bp obs f = Inr cell \<Longrightarrow>
   (\<exists>b. bp = Some b
      \<and> visited cell =
          (if \<not> t_booleanContains T b (centroid cell)
              \<or> list_ex (\<lambda>obstacle. t_booleanContains T obstacle (centroid cell)) obs
           then Unvisitable else Unvisited))
   \<and> visited cell \<noteq> Visited
   \<and> centroid cell = t_centroid T (geometry cell)"
  by (cases f) (auto simp: markCell_def Let_def split: option.splits if_splits)

text \<open>
  Claim C5. Every cell of the grid \<^verbatim>\<open>getCoverageGrid\<close> returns is labelled \<^verbatim>\<open>unvisitable\<close>
  when its centroid is not contained in the boundary eroded by 1 cm
  (\<^verbatim>\<open>turf.buffer(boundary, -0.01, { units: 'meters' })\<close>) or is contained in some obstacle, and
  \<^verbatim>\<open>unvisited\<close> otherwise; no cell is labelled \<^verbatim>\<open>visited\<close>. The centroid tested is the one
  stored in the cell, the centroid of its polygon.
\<close>

theorem getCoverageGrid_labels:
  assumes "getCoverageGrid T boundary obstacles mbb laneWidth startPoint = Inr grid"
    and "cell \<in> set grid"
  shows "(\<exists>b. t_buffer T boundary (- (1 / 100)) = Some b
      \<and> visited cell =
          (if \<not> t_booleanContains T b (centroid cell)
              \<or> list_ex (\<lambda>obstacle. t_booleanContains T obstacle (centroid cell))
                   (case obstacles of None \<Rightarrow> [] | Some os \<Rightarrow> os)
           then Unvisitable else Unvisited))
   \<and> visited cell \<noteq> Visited
   \<and> centroid cell = t_centroid T (geometry cell)"
proof -
  from assms(1) obtain fs where
    "mapE (markCell T (t_buffer T boundary (- (1 / 100))) (case obstacles of None \<Rightarrow> [] | Some os \<Rightarrow> os)) fs
       = Inr grid"
    by (auto simp: getCoverageGrid_def Let_def split: list.splits)
  from mapE_member[OF this assms(2)] obtain f where
    "markCell T (t_buffer T boundary (- (1 / 100))) (case obstacles of None \<Rightarrow> [] | Some os \<Rightarrow> os) f = Inr cell"
    by blast
  from markCell_label[OF this] show ?thesis .
qed

theorem getCoverageGrid_labels_witness:
  "getCoverageGrid planar gridBoundary (Some [gridObstacle]) gridMbb 1 0 = Inr gridCells
   \<and> list_all (\<lambda>cell. visited cell \<noteq> Visited \<and> centroid cell = t_centroid planar (geometry cell)) gridCells
   \<and> map visited gridCells = [Unvisited, Unvisitable, Unvisitable, Unvisitable]"
proof -
  have run: "getCoverageGrid planar gridBoundary (Some [gridObstacle]) gridMbb 1 0 = Inr gridCells"
    by code_simp
  have "\<And>cell. cell \<in> set gridCells \<Longrightarrow>
      visited cell \<noteq> Visited \<and> centroid cell = t_centroid planar (geometry cell)"
    using getCoverageGrid_labels[OF run] by blast
  then have "list_all (\<lambda>cell. visited cell \<noteq> Visited \<and> centroid cell = t_centroid planar (geometry cell)) gridCells"
    unfolding list_all_iff by blast
  moreover have "map visited gridCells = [Unvisited, Unvisitable, Unvisitable, Unvisitable]"
    by (simp add: gridCells_def)
  ultimately show ?thesis using run by blast
qed

section \<open>Sweep driver: a failed resume\<close>

text \<open>
  Claim C6. Called with an existing path that has a vertex, while some cell is still
  unvisited, \<^verbatim>\<open>calculateMowPath\<close> routes from the last path vertex to the centroid of the
  first unvisited cell; when the router returns \<^verbatim>\<open>null\<close> the function returns: its result
  is the input path with the same coordinates, and the grid is as it was.
\<close>

theorem calculateMowPath_router_fails:
  assumes "coords \<noteq> []"
    and "filter (\<lambda>f. visited f = Unvisited) coverageGrid = u # us"
    and "calculateClearPath T roadmap (last coords) (centroid u) boundary obstacles = Some (Inr None)"
  shows "calculateMowPath T (Some coords) boundary obstacles roadmap coverageGrid
           = Some (Inr (coords, coverageGrid))"
  using assms by (simp add: calculateMowPath_def Let_def)

theorem calculateMowPath_router_fails_witness:
  "calculateClearPath detourScene (Some []) (0, 0) (4, 0) fieldBoundary (Some [sideObstacle]) = Some (Inr None)
   \<and> calculateMowPath detourScene (Some [(0, - 1), (0, 0)]) fieldBoundary (Some [sideObstacle]) (Some [])
         [cellAt 0 0 0 0 Visited, cellAt 4 0 1 0 Unvisited]
       = Some (Inr ([(0, - 1), (0, 0)], [cellAt 0 0 0 0 Visited, cellAt 4 0 1 0 Unvisited]))"
proof -
  have ne: "[(0, - 1), (0 :: rat, 0 :: rat)] \<noteq> []" by simp
  have un: "filter (\<lambda>f. visited f = Unvisited) [cellAt 0 0 0 0 Visited, cellAt 4 0 1 0 Unvisited]
      = cellAt 4 0 1 0 Unvisited # []"
    by (simp add: cellAt_def)
  have r: "calculateClearPath detourScene (Some []) (0, 0) (4, 0) fieldBoundary (Some [sideObstacle])
      = Some (Inr None)"
    by code_simp
  have r': "calculateClearPath detourScene (Some []) (last [(0, - 1), (0, 0)])
      (centroid (cellAt 4 0 1 0 Unvisited)) fieldBoundary (Some [sideObstacle]) = Some (Inr None)"
    using r by (simp add: cellAt_def)
  show ?thesis
    using calculateMowPath_router_fails[OF ne un r'] r by simp
qed

section \<open>Orchestration: a grid without a visitable cell\<close>

lemma no_cells_counted:
  assumes "list_all (\<lambda>c. visited c \<noteq> Visited \<and> visited c \<noteq> Unvisited) grid"
  shows "filter (\<lambda>f. visited f = Unvisited) grid = []"
    and "filter (\<lambda>f. visited f = Visited) grid = []"
  using assms by (simp_all add: filter_empty_conv list_all_iff)

text \<open>
  Claim C10. When no cell of the coverage grid is labelled \<^verbatim>\<open>visited\<close> or \<^verbatim>\<open>unvisited\<close>,
  the coverage ratio is \<^verbatim>\<open>0 / 0\<close>, that is \<^verbatim>\<open>NaN\<close>; the loop condition
  \<^verbatim>\<open>getCoverage() < 0.99\<close> is false, so the loop ends at once with \<^verbatim>\<open>path = null\<close> and the
  grid untouched; \<^verbatim>\<open>pruneExcessPoints(null, ...)\<close> is \<^verbatim>\<open>null\<close>, so the mow path is \<^verbatim>\<open>null\<close>:
  no polyline and no exception.
\<close>

theorem all_unvisitable_plan:
  assumes "list_all (\<lambda>c. visited c \<noteq> Visited \<and> visited c \<noteq> Unvisited) coverageGrid"
  shows "getCoverage (Some coverageGrid) = NaN
    \<and> \<not> js_lt (getCoverage (Some coverageGrid)) (Num (99 / 100))
    \<and> mowLoop T boundary obstacles roadmap None 0 coverageGrid = Some (Inr (None, coverageGrid))
    \<and> planMowPath T boundary obstacles roadmap coverageGrid laneWidth = Some (Inr (None, coverageGrid))"
proof -
  have cov: "getCoverage (Some coverageGrid) = NaN"
    using no_cells_counted[OF assms] by (simp add: getCoverage_def jsDiv_def)
  have loop: "mowLoop T boundary obstacles roadmap None 0 coverageGrid = Some (Inr (None, coverageGrid))"
    by (subst mowLoop.simps) (simp add: cov)
  show ?thesis
    using cov loop by (simp add: planMowPath_def pruneExcessPoints_def)
qed

theorem all_unvisitable_plan_witness:
  "list_all (\<lambda>c. visited c \<noteq> Visited \<and> visited c \<noteq> Unvisited)
     [cellAt 0 0 0 0 Unvisitable, cellAt 0 1 0 1 Unvisitable]
   \<and> getCoverage (Some [cellAt 0 0 0 0 Unvisitable, cellAt 0 1 0 1 Unvisitable]) = NaN
   \<and> planMowPath planar fieldBoundary None (Some []) [cellAt 0 0 0 0 Unvisitable, cellAt 0 1 0 1 Unvisitable] 1
       = Some (Inr (None, [cellAt 0 0 0 0 Unvisitable, cellAt 0 1 0 1 Unvisitable]))"
proof -
  have h: "list_all (\<lambda>c. visited c \<noteq> Visited \<and> visited c \<noteq> Unvisited)
      [cellAt 0 0 0 0 Unvisitable, cellAt 0 1 0 1 Unvisitable]"
    by (simp add: cellAt_def)
  show ?thesis
    using all_unvisitable_plan[OF h, of planar fieldBoundary None "Some []" 1] h by simp
qed

section \<open>Clear-path router: what a returned path satisfies\<close>

subsection \<open>The adjacency graph\<close>






subsection \<open>The search and the reconstruction\<close>












subsection \<open>Segments of a chain\<close>


lemma adj_single [simp]: "adj [x] = {}" "adj [] = {}"
  by (simp_all add: adj_def)




subsection \<open>Removing repeated fingerprints\<close>









subsection \<open>The stitches and the temporary roadmap\<close>







subsection \<open>Soundness\<close>







text \<open>
  Why clearness is stated up to a fingerprint. In the scene of the three roads the caller's
  roads are clear and no vertex shares the fingerprint of the start or of the end, yet the
  returned path has a segment through the obstacle: the west end of road A and the south
  end of road B have one fingerprint, the filter of repeated fingerprints keeps the first
  of the two, and the segment from there to the north end of road B is a segment of no
  road. With the south end of road B in place of its first vertex it is road B.
\<close>

lemma calculateClearPath_junction_example:
  "calculateClearPath junctionScene (Some [roadA, roadB, roadC]) (3, 0) (3, 5) yard (Some [gapObstacle])
     = Some (Inr (Some [(3, 0), (3, 1), (2 + 1 / 4000000, 1), (2, 4), (3, 4), (3, 5)]))
   \<and> roadsClear junctionScene (boundaryAndObstacles yard (Some [gapObstacle])) [roadA, roadB, roadC]
   \<and> anchoredAt (3, 0)
        (concat (routerRoads junctionScene (Some [roadA, roadB, roadC]) (3, 0) (3, 5) yard (Some [gapObstacle])))
   \<and> anchoredAt (3, 5)
        (concat (routerRoads junctionScene (Some [roadA, roadB, roadC]) (3, 0) (3, 5) yard (Some [gapObstacle])))
   \<and> pointKey (2 + 1 / 4000000, 1) = pointKey (2, 1)
   \<and> \<not> isPathClear junctionScene [(2 + 1 / 4000000, 1), (2, 4)] (boundaryAndObstacles yard (Some [gapObstacle]))
   \<and> isPathClear junctionScene [(2, 1), (2, 4)] (boundaryAndObstacles yard (Some [gapObstacle]))
   \<and> \<not> pathClear junctionScene (boundaryAndObstacles yard (Some [gapObstacle]))
         [(3, 0), (3, 1), (2 + 1 / 4000000, 1), (2, 4), (3, 4), (3, 5)]"
proof -
  have "calculateClearPath junctionScene (Some [roadA, roadB, roadC]) (3, 0) (3, 5) yard (Some [gapObstacle])
     = Some (Inr (Some [(3, 0), (3, 1), (2 + 1 / 4000000, 1), (2, 4), (3, 4), (3, 5)]))"
    by code_simp
  moreover have "roadsClear junctionScene (boundaryAndObstacles yard (Some [gapObstacle])) [roadA, roadB, roadC]"
    by code_simp
  moreover have "anchoredAt (3, 0)
        (concat (routerRoads junctionScene (Some [roadA, roadB, roadC]) (3, 0) (3, 5) yard (Some [gapObstacle])))"
    by code_simp
  moreover have "anchoredAt (3, 5)
        (concat (routerRoads junctionScene (Some [roadA, roadB, roadC]) (3, 0) (3, 5) yard (Some [gapObstacle])))"
    by code_simp
  moreover have "pointKey (2 + 1 / 4000000, 1) = pointKey (2, 1)"
    by code_simp
  moreover have "\<not> isPathClear junctionScene [(2 + 1 / 4000000, 1), (2, 4)]
        (boundaryAndObstacles yard (Some [gapObstacle]))"
    by code_simp
  moreover have "isPathClear junctionScene [(2, 1), (2, 4)] (boundaryAndObstacles yard (Some [gapObstacle]))"
    by code_simp
  moreover have "\<not> pathClear junctionScene (boundaryAndObstacles yard (Some [gapObstacle]))
         [(3, 0), (3, 1), (2 + 1 / 4000000, 1), (2, 4), (3, 4), (3, 5)]"
    by code_simp
  ultimately show ?thesis by blast
qed





end
